theory Spec2Isabelle
  imports Complex_Main "HOL-Library.AList" "HOL-Library.Multiset"
begin

section \<open>Python values shared by the whole development\<close>

text \<open>
  Exceptions of the Python sources are values. The constructors that carry a string are
  the ones whose message the sources build themselves; the others are raised by the
  Python runtime (an operation applied to a value of the wrong type, a missing key, an
  empty string indexed at 0, a directory opened as a file).
\<close>

datatype py_error =
    FileNotFoundError string
  | NotADirectoryError string
  | ValueError string
  | IsADirectoryError
  | FileExistsError
  | TypeError
  | AttributeError
  | KeyError
  | IndexError
  | UnicodeDecodeError
  | ParseError
  | SyntaxError

text \<open>Sequencing of computations that may raise: the first exception wins.\<close>

definition ebind :: "py_error + 'a \<Rightarrow> ('a \<Rightarrow> py_error + 'b) \<Rightarrow> py_error + 'b" where
  "ebind m f = (case m of Inl e \<Rightarrow> Inl e | Inr v \<Rightarrow> f v)"

subsection \<open>Strings\<close>

text \<open>
  Strings are lists of 8-bit characters. \<open>str.lower\<close> is modelled on the ASCII letters
  (every other character is left alone), \<open>str.strip\<close> removes the characters below 256
  that Python counts as whitespace.
\<close>

definition lower_char :: "char \<Rightarrow> char" where
  "lower_char c =
     (case map_of (zip ''ABCDEFGHIJKLMNOPQRSTUVWXYZ'' ''abcdefghijklmnopqrstuvwxyz'') c of
        Some d \<Rightarrow> d
      | None \<Rightarrow> c)"

definition py_lower :: "string \<Rightarrow> string" where
  "py_lower s = map lower_char s"

definition is_space :: "char \<Rightarrow> bool" where
  "is_space c = (c \<in> set [CHR '' '', CHR 0x09, CHR 0x0A, CHR 0x0B, CHR 0x0C, CHR 0x0D,
                            CHR 0x1C, CHR 0x1D, CHR 0x1E, CHR 0x1F, CHR 0x85, CHR 0xA0])"

definition py_strip :: "string \<Rightarrow> string" where
  "py_strip s = rev (dropWhile is_space (rev (dropWhile is_space s)))"

definition startswith :: "string \<Rightarrow> string \<Rightarrow> bool" where
  "startswith s p = (take (length p) s = p)"

definition endswith :: "string \<Rightarrow> string \<Rightarrow> bool" where
  "endswith s p = (length p \<le> length s \<and> drop (length s - length p) s = p)"

definition is_substring :: "string \<Rightarrow> string \<Rightarrow> bool" where
  "is_substring n h = list_ex (\<lambda>i. take (length n) (drop i h) = n) [0..<Suc (length h)]"

text \<open>\<open>str(n)\<close> of a natural number.\<close>

fun str_nat :: "nat \<Rightarrow> string" where
  "str_nat n =
     (if n < 10 then [''0123456789'' ! n]
      else str_nat (n div 10) @ [''0123456789'' ! (n mod 10)])"

declare str_nat.simps [simp del]

subsection \<open>TOML values and the dynamically typed operations on them\<close>

text \<open>
  A parsed TOML value. A table is an association list in the order of the document, as a
  Python \<open>dict\<close> keeps its insertion order; \<open>AList.update\<close> overwrites a key in place
  and appends a new one, \<open>AList.delete\<close> is \<open>del\<close>. Dates and times are kept as text.
\<close>

datatype toml =
    TStr string
  | TInt int
  | TFloat real
  | TBool bool
  | TDate string
  | TArr "toml list"
  | TTab "(string \<times> toml) list"

type_synonym toml_tab = "(string \<times> toml) list"

text \<open>Truth value of a TOML value in a Python condition.\<close>

fun truthy :: "toml \<Rightarrow> bool" where
  "truthy (TStr s) = (s \<noteq> [])"
| "truthy (TInt i) = (i \<noteq> 0)"
| "truthy (TFloat x) = (x \<noteq> 0)"
| "truthy (TBool b) = b"
| "truthy (TDate d) = True"
| "truthy (TArr xs) = (xs \<noteq> [])"
| "truthy (TTab t) = (t \<noteq> [])"

text \<open>
  \<open>k in v\<close> for a string \<open>k\<close>: a key of a table, an element of an array, a substring
  of a string; a TypeError on every other value.
\<close>

fun py_in :: "string \<Rightarrow> toml \<Rightarrow> py_error + bool" where
  "py_in k (TTab t) = Inr (map_of t k \<noteq> None)"
| "py_in k (TArr xs) = Inr (TStr k \<in> set xs)"
| "py_in k (TStr s) = Inr (is_substring k s)"
| "py_in k v = Inl TypeError"

text \<open>\<open>v[k]\<close> for a string \<open>k\<close>: only a table can be indexed by a string.\<close>

fun py_getitem :: "toml \<Rightarrow> string \<Rightarrow> py_error + toml" where
  "py_getitem (TTab t) k = (case map_of t k of None \<Rightarrow> Inl KeyError | Some v \<Rightarrow> Inr v)"
| "py_getitem v k = Inl TypeError"

text \<open>\<open>v.get(k, d)\<close>: only a table has the method.\<close>

fun py_get :: "toml \<Rightarrow> string \<Rightarrow> toml \<Rightarrow> py_error + toml" where
  "py_get (TTab t) k d = Inr (case map_of t k of None \<Rightarrow> d | Some v \<Rightarrow> v)"
| "py_get v k d = Inl AttributeError"

text \<open>
  The strings met when iterating over a value that \<open>py_in\<close> accepts: the string
  elements of an array, the one-character strings of a string, the keys of a table.
\<close>

fun iter_strings :: "toml \<Rightarrow> string list" where
  "iter_strings (TArr xs) = concat (map (\<lambda>x. case x of TStr s \<Rightarrow> [s] | _ \<Rightarrow> []) xs)"
| "iter_strings (TStr s) = map (\<lambda>c. [c]) s"
| "iter_strings (TTab t) = map fst t"
| "iter_strings v = []"

subsection \<open>The file system\<close>

text \<open>
  A path is the list of its components from the root of the file system, \<open>p / n\<close> is
  \<open>p @ [n]\<close>. A file system is a finite table from paths to nodes, a regular file with
  its bytes or a directory; the first entry of a path is the one that counts. Paths are
  taken as absolute and free of symbolic links, so \<open>Path.resolve\<close> is the identity.
\<close>

type_synonym path = "string list"

datatype node = File string | Dir

type_synonym filesystem = "(path \<times> node) list"

definition path_exists :: "filesystem \<Rightarrow> path \<Rightarrow> bool" where
  "path_exists fs p = (map_of fs p \<noteq> None)"

definition is_dir :: "filesystem \<Rightarrow> path \<Rightarrow> bool" where
  "is_dir fs p = (map_of fs p = Some Dir)"

definition path_str :: "path \<Rightarrow> string" where
  "path_str p = (if p = [] then ''/'' else concat (map (\<lambda>c. ''/'' @ c) p))"

text \<open>The paths that exist, each once.\<close>

definition all_paths :: "filesystem \<Rightarrow> path list" where
  "all_paths fs = remdups (map fst fs)"

text \<open>
  \<open>d.glob(pattern)\<close> for a pattern without directory part: the entries of the directory
  \<open>d\<close> whose name satisfies the pattern (nothing when \<open>d\<close> is not a directory).
\<close>

definition glob_dir :: "filesystem \<Rightarrow> path \<Rightarrow> (string \<Rightarrow> bool) \<Rightarrow> path list" where
  "glob_dir fs d pat =
     (if is_dir fs d then
        filter (\<lambda>p. p \<noteq> [] \<and> butlast p = d \<and> pat (last p)) (all_paths fs)
      else [])"

text \<open>
  \<open>d.glob("**/" + pattern)\<close>: the paths strictly below \<open>d\<close>, at any depth, that are
  reached through directories only and whose name satisfies the pattern.
\<close>

definition glob_rec :: "filesystem \<Rightarrow> path \<Rightarrow> (string \<Rightarrow> bool) \<Rightarrow> path list" where
  "glob_rec fs d pat =
     filter (\<lambda>p. length d < length p \<and> take (length d) p = d \<and>
                 list_all (\<lambda>k. is_dir fs (take k p)) [length d..<length p] \<and>
                 pat (last p))
       (all_paths fs)"

subsection \<open>Libraries outside the repository\<close>

text \<open>
  A function definition found by \<open>ast.walk\<close>: whether it has a return annotation, and
  for each parameter of \<open>args + posonlyargs + kwonlyargs\<close> whether it is annotated.
\<close>

record fdef =
  returns :: bool
  arg_annotations :: "bool list"

text \<open>
  A parsed ini file: its sections other than \<open>DEFAULT\<close>, each with what
  \<open>config.items(section)\<close> gives (option names in lower case, defaults included).
\<close>

type_synonym ini = "(string \<times> (string \<times> string) list) list"

text \<open>
  The parsers, printers and the clock are not code of the repository: they are
  parameters. Each loader gives \<open>None\<close> where the library raises on the bytes of the
  file; \<open>ast_function_defs\<close> stands for \<open>ast.parse\<close> followed by \<open>ast.walk\<close> and gives
  the exception that \<open>ast.parse\<close> raises on the text (a SyntaxError, or another one
  such as the ValueError for a text with a null byte); \<open>fmt_float0\<close> is the format
  \<open>:.0f\<close>; \<open>exc_str\<close> is \<open>str(e)\<close> of an exception; \<open>item_str\<close> is the text inside
  an f-string of a TOML value that is not a string; \<open>timestamp\<close> is
  \<open>datetime.now(UTC).strftime("%Y%m%d_%H%M%S")\<close>.
\<close>

record pylib =
  tomllib_load :: "string \<Rightarrow> toml_tab option"
  tomlkit_load :: "string \<Rightarrow> toml_tab option"
  tomlkit_dumps :: "toml_tab \<Rightarrow> string"
  configparser_read :: "string \<Rightarrow> ini option"
  decode_utf8 :: "string \<Rightarrow> string option"
  ast_function_defs :: "string \<Rightarrow> py_error + fdef list"
  fmt_float0 :: "real \<Rightarrow> string"
  exc_str :: "py_error \<Rightarrow> string"
  item_str :: "toml \<Rightarrow> string"
  timestamp :: string

text \<open>The text of a TOML value inside an f-string: a string is its own text.\<close>

definition py_str :: "pylib \<Rightarrow> toml \<Rightarrow> string" where
  "py_str lib v = (case v of TStr s \<Rightarrow> s | _ \<Rightarrow> item_str lib v)"

section \<open>pyhatch.models: validation of the project name\<close>

datatype ProjectType = LIBRARY | APP | CLI | API | SCRIPT

text \<open>
  Of \<open>ProjectConfig\<close> the fields that a validator reads: the name, the project type and
  the two feature flags of \<open>validate_config_consistency\<close>. The other fields have
  defaults and no validator that can fail on a default.
\<close>

record ProjectConfig =
  name :: string
  project_type :: ProjectType
  docker :: bool
  docs :: bool

text \<open>The character classes of the pattern \<open>^[a-z][a-z0-9_-]*$\<close>.\<close>

definition is_lower_letter :: "char \<Rightarrow> bool" where
  "is_lower_letter c = (c \<in> set ''abcdefghijklmnopqrstuvwxyz'')"

definition is_name_char :: "char \<Rightarrow> bool" where
  "is_name_char c = (c \<in> set ''abcdefghijklmnopqrstuvwxyz0123456789_-'')"

text \<open>
  \<open>re.match\<close> with that pattern: one lower-case letter, then the longest run of name
  characters, then the end of the string; \<open>$\<close> also matches just before a final newline.
\<close>

definition name_pattern_matches :: "string \<Rightarrow> bool" where
  "name_pattern_matches v =
     (case v of
        [] \<Rightarrow> False
      | c # cs \<Rightarrow> is_lower_letter c \<and>
          (let rest = dropWhile is_name_char cs in rest = [] \<or> rest = [CHR 0x0A]))"

text \<open>The set \<open>reserved\<close> of \<open>validate_project_name\<close>, as the source lists it.\<close>

definition reserved :: "string list" where
  "reserved =
     [''and'', ''as'', ''assert'', ''async'', ''await'', ''break'', ''class'',
      ''continue'', ''def'', ''del'', ''elif'', ''else'', ''except'', ''finally'',
      ''for'', ''from'', ''global'', ''if'', ''import'', ''in'', ''is'', ''lambda'',
      ''nonlocal'', ''not'', ''or'', ''pass'', ''raise'', ''return'', ''try'',
      ''while'', ''with'', ''yield'', ''True'', ''False'', ''None'']"

definition validate_project_name :: "string \<Rightarrow> py_error + string" where
  "validate_project_name v0 =
     (let v = py_strip (py_lower v0) in
      if \<not> name_pattern_matches v then
        Inl (ValueError (''Invalid project name '' @ [CHR 0x27] @ v @ [CHR 0x27] @
               ''. Names must start with a letter '' @
               ''and contain only letters, numbers, hyphens, and underscores.''))
      else if v \<in> set reserved then
        Inl (ValueError ([CHR 0x27] @ v @ [CHR 0x27] @
               '' is a Python reserved word and cannot be used as a project name.''))
      else Inr v)"

definition validate_config_consistency :: "ProjectConfig \<Rightarrow> py_error + ProjectConfig" where
  "validate_config_consistency self =
     (if project_type self = SCRIPT then
        (if docker self then
           Inl (ValueError ''Docker is not applicable for single-file scripts.'')
         else if docs self then
           Inl (ValueError ''Documentation setup is not applicable for single-file scripts.'')
         else Inr self)
      else Inr self)"

text \<open>
  Construction of a \<open>ProjectConfig\<close>: the length bounds of the field (\<open>min_length=1\<close>,
  \<open>max_length=100\<close>) are checked on the given string, then the field validator runs and
  its result is stored, then the model validator runs.
\<close>

definition new_ProjectConfig ::
  "string \<Rightarrow> ProjectType \<Rightarrow> bool \<Rightarrow> bool \<Rightarrow> py_error + ProjectConfig" where
  "new_ProjectConfig nm ptype dk dc =
     (if length nm < 1 \<or> 100 < length nm then
        Inl (ValueError ''String should have between 1 and 100 characters'')
      else ebind (validate_project_name nm) (\<lambda>v.
        validate_config_consistency
          \<lparr>name = v, project_type = ptype, docker = dk, docs = dc\<rparr>))"

text \<open>
  The reserved words of the language, \<open>keyword.kwlist\<close> of the Python standard library
  (the soft keywords are not reserved).
\<close>

definition kwlist :: "string list" where
  "kwlist =
     [''False'', ''None'', ''True'', ''and'', ''as'', ''assert'', ''async'', ''await'',
      ''break'', ''class'', ''continue'', ''def'', ''del'', ''elif'', ''else'', ''except'',
      ''finally'', ''for'', ''from'', ''global'', ''if'', ''import'', ''in'', ''is'',
      ''lambda'', ''nonlocal'', ''not'', ''or'', ''pass'', ''raise'', ''return'', ''try'',
      ''while'', ''with'', ''yield'']"

section \<open>quickforge.auditor\<close>

datatype AuditCategory = TOOLING | CONFIGURATION | DEPENDENCIES | SECURITY | CODE_QUALITY

datatype Severity = INFO | WARNING | ERROR | CRITICAL

record Recommendation =
  category :: AuditCategory
  message :: string
  severity :: Severity
  file_path :: "path option"
  action :: "string option"

text \<open>The dictionary \<open>tooling_detected\<close> is an association list in insertion order.\<close>

record AuditResult =
  project_path :: path
  recommendations :: "Recommendation list"
  score :: int
  tooling_detected :: "(string \<times> string) list"

definition critical_count :: "AuditResult \<Rightarrow> nat" where
  "critical_count r = length (filter (\<lambda>x. severity x = CRITICAL) (recommendations r))"

definition error_count :: "AuditResult \<Rightarrow> nat" where
  "error_count r = length (filter (\<lambda>x. severity x = ERROR) (recommendations r))"

definition warning_count :: "AuditResult \<Rightarrow> nat" where
  "warning_count r = length (filter (\<lambda>x. severity x = WARNING) (recommendations r))"

definition info_count :: "AuditResult \<Rightarrow> nat" where
  "info_count r = length (filter (\<lambda>x. severity x = INFO) (recommendations r))"

subsection \<open>Config readers\<close>

text \<open>
  \<open>_read_toml\<close>: \<open>None\<close> for a missing file and for every exception (a directory cannot
  be opened, the bytes may not parse).
\<close>

definition read_toml :: "pylib \<Rightarrow> filesystem \<Rightarrow> path \<Rightarrow> toml_tab option" where
  "read_toml lib fs p =
     (case map_of fs p of
        None \<Rightarrow> None
      | Some Dir \<Rightarrow> None
      | Some (File b) \<Rightarrow> tomllib_load lib b)"

text \<open>
  \<open>_read_ini\<close>: \<open>ConfigParser.read\<close> skips a path that it cannot open, so a directory
  gives a configuration without sections.
\<close>

definition read_ini :: "pylib \<Rightarrow> filesystem \<Rightarrow> path \<Rightarrow> ini option" where
  "read_ini lib fs p =
     (case map_of fs p of
        None \<Rightarrow> None
      | Some Dir \<Rightarrow> Some []
      | Some (File b) \<Rightarrow> configparser_read lib b)"

definition has_section :: "ini option \<Rightarrow> string \<Rightarrow> bool" where
  "has_section cfg s = (case cfg of None \<Rightarrow> False | Some c \<Rightarrow> map_of c s \<noteq> None)"

text \<open>
  The condition \<open>pyproject and "tool" in pyproject and k in pyproject["tool"]\<close> of the
  detectors; an empty document is false.
\<close>

definition tool_has :: "toml_tab option \<Rightarrow> string \<Rightarrow> py_error + bool" where
  "tool_has pyproject k =
     (case pyproject of
        None \<Rightarrow> Inr False
      | Some d \<Rightarrow>
          (if d = [] then Inr False
           else case map_of d ''tool'' of
                  None \<Rightarrow> Inr False
                | Some t \<Rightarrow> py_in k t))"

text \<open>\<open>pyproject["tool"][k]\<close>, evaluated where \<open>tool_has pyproject k\<close> held.\<close>

definition tool_item :: "toml_tab option \<Rightarrow> string \<Rightarrow> py_error + toml" where
  "tool_item pyproject k =
     (case pyproject of
        None \<Rightarrow> Inl TypeError
      | Some d \<Rightarrow> ebind (py_getitem (TTab d) ''tool'') (\<lambda>t. py_getitem t k))"

subsection \<open>Tool detectors\<close>

type_synonym detection = "string option \<times> (string \<times> string) list"

definition is_requirements_glob :: "string \<Rightarrow> bool" where
  "is_requirements_glob n =
     (startswith n ''requirements'' \<and> endswith n ''.txt'' \<and> 16 \<le> length n)"

definition detect_package_manager :: "pylib \<Rightarrow> filesystem \<Rightarrow> path \<Rightarrow> py_error + detection" where
  "detect_package_manager lib fs path =
     (if path_exists fs (path @ [''uv.lock'']) then
        Inr (Some ''uv'', [(''lock_file'', ''uv.lock'')])
      else if path_exists fs (path @ [''poetry.lock'']) then
        Inr (Some ''poetry'', [(''lock_file'', ''poetry.lock'')])
      else
        let pyproject = read_toml lib fs (path @ [''pyproject.toml'']) in
        ebind (tool_has pyproject ''poetry'') (\<lambda>b1.
        if b1 then Inr (Some ''poetry'', [(''config'', ''pyproject.toml'')]) else
        ebind (tool_has pyproject ''pdm'') (\<lambda>b2.
        if b2 then Inr (Some ''pdm'', [(''config'', ''pyproject.toml'')]) else
        ebind (tool_has pyproject ''hatch'') (\<lambda>b3.
        if b3 then Inr (Some ''hatch'', [(''config'', ''pyproject.toml'')]) else
        ebind (tool_has pyproject ''flit'') (\<lambda>b4.
        if b4 then Inr (Some ''flit'', [(''config'', ''pyproject.toml'')]) else
        if path_exists fs (path @ [''Pipfile'']) \<or> path_exists fs (path @ [''Pipfile.lock'']) then
          Inr (Some ''pipenv'', [(''config'', ''Pipfile'')])
        else if path_exists fs (path @ [''requirements.txt'']) then
          Inr (Some ''pip'',
               foldl (\<lambda>info req_file.
                        if last req_file \<noteq> ''requirements.txt''
                        then AList.update (last req_file) (last req_file) info else info)
                 [(''requirements'', ''requirements.txt'')]
                 (glob_dir fs path is_requirements_glob))
        else if path_exists fs (path @ [''setup.py'']) then
          Inr (Some ''setuptools'', [(''config'', ''setup.py'')])
        else if path_exists fs (path @ [''setup.cfg'']) then
          Inr (Some ''setuptools'', [(''config'', ''setup.cfg'')])
        else Inr (None, []))))))"

definition detect_linter :: "pylib \<Rightarrow> filesystem \<Rightarrow> path \<Rightarrow> py_error + detection" where
  "detect_linter lib fs path =
     (let pyproject = read_toml lib fs (path @ [''pyproject.toml'']) in
      if path_exists fs (path @ [''ruff.toml'']) then
        Inr (Some ''ruff'', [(''config'', ''ruff.toml'')])
      else
        ebind (tool_has pyproject ''ruff'') (\<lambda>b1.
        if b1 then Inr (Some ''ruff'', [(''config'', ''pyproject.toml'')]) else
        if path_exists fs (path @ [''.flake8'']) then
          Inr (Some ''flake8'', [(''config'', ''.flake8'')])
        else if has_section (read_ini lib fs (path @ [''setup.cfg''])) ''flake8'' then
          Inr (Some ''flake8'', [(''config'', ''setup.cfg'')])
        else if path_exists fs (path @ [''.pylintrc'']) then
          Inr (Some ''pylint'', [(''config'', ''.pylintrc'')])
        else if path_exists fs (path @ [''pylintrc'']) then
          Inr (Some ''pylint'', [(''config'', ''pylintrc'')])
        else
          ebind (tool_has pyproject ''pylint'') (\<lambda>b2.
          if b2 then Inr (Some ''pylint'', [(''config'', ''pyproject.toml'')])
          else Inr (None, []))))"

definition detect_formatter :: "pylib \<Rightarrow> filesystem \<Rightarrow> path \<Rightarrow> py_error + detection" where
  "detect_formatter lib fs path =
     (let pyproject = read_toml lib fs (path @ [''pyproject.toml'']) in
      ebind (tool_has pyproject ''ruff'') (\<lambda>b1.
      ebind (if b1 then
               ebind (tool_item pyproject ''ruff'') (\<lambda>ruff_config.
               ebind (py_in ''format'' ruff_config) (\<lambda>f.
               if f then Inr True else py_in ''line-length'' ruff_config))
             else Inr False) (\<lambda>is_ruff.
      if is_ruff then Inr (Some ''ruff'', [(''config'', ''pyproject.toml'')]) else
      ebind (tool_has pyproject ''black'') (\<lambda>b2.
      if b2 then Inr (Some ''black'', [(''config'', ''pyproject.toml'')]) else
      ebind (tool_has pyproject ''autopep8'') (\<lambda>b3.
      if b3 then Inr (Some ''autopep8'', [(''config'', ''pyproject.toml'')]) else
      if has_section (read_ini lib fs (path @ [''setup.cfg''])) ''autopep8'' then
        Inr (Some ''autopep8'', [(''config'', ''setup.cfg'')])
      else if path_exists fs (path @ [''.style.yapf'']) then
        Inr (Some ''yapf'', [(''config'', ''.style.yapf'')])
      else
        ebind (tool_has pyproject ''yapf'') (\<lambda>b4.
        if b4 then Inr (Some ''yapf'', [(''config'', ''pyproject.toml'')])
        else Inr (None, [])))))))"

text \<open>
  The test on the selected rules of \<open>detect_import_sorter\<close>:
  \<open>"I" in select or any(s.startswith("I") for s in select if isinstance(s, str))\<close>.
\<close>

definition selects_isort_rules :: "toml \<Rightarrow> py_error + bool" where
  "selects_isort_rules select =
     ebind (py_in ''I'' select) (\<lambda>b.
       Inr (b \<or> list_ex (\<lambda>s. startswith s ''I'') (iter_strings select)))"

text \<open>
  The part of \<open>detect_import_sorter\<close> that looks at \<open>[tool.ruff]\<close>: whether ruff sorts
  the imports.
\<close>

definition ruff_sorts_imports :: "toml \<Rightarrow> py_error + bool" where
  "ruff_sorts_imports ruff_config =
     ebind (py_in ''lint'' ruff_config) (\<lambda>has_lint.
     ebind (if has_lint then
              ebind (py_get ruff_config ''lint'' (TTab [])) (\<lambda>lint. py_in ''isort'' lint)
            else Inr False) (\<lambda>has_isort.
     if has_isort then Inr True
     else if has_lint then
       ebind (py_get ruff_config ''lint'' (TTab [])) (\<lambda>lint.
       ebind (py_get lint ''select'' (TArr [])) (\<lambda>select.
       selects_isort_rules select))
     else Inr False))"

definition detect_import_sorter :: "pylib \<Rightarrow> filesystem \<Rightarrow> path \<Rightarrow> py_error + detection" where
  "detect_import_sorter lib fs path =
     (let pyproject = read_toml lib fs (path @ [''pyproject.toml'']) in
      ebind (tool_has pyproject ''ruff'') (\<lambda>b1.
      ebind (if b1 then ebind (tool_item pyproject ''ruff'') ruff_sorts_imports
             else Inr False) (\<lambda>is_ruff.
      if is_ruff then Inr (Some ''ruff'', [(''config'', ''pyproject.toml'')]) else
      if path_exists fs (path @ [''.isort.cfg'']) then
        Inr (Some ''isort'', [(''config'', ''.isort.cfg'')])
      else
        ebind (tool_has pyproject ''isort'') (\<lambda>b2.
        if b2 then Inr (Some ''isort'', [(''config'', ''pyproject.toml'')]) else
        if has_section (read_ini lib fs (path @ [''setup.cfg''])) ''isort'' then
          Inr (Some ''isort'', [(''config'', ''setup.cfg'')])
        else Inr (None, [])))))"

definition detect_type_checker :: "pylib \<Rightarrow> filesystem \<Rightarrow> path \<Rightarrow> py_error + detection" where
  "detect_type_checker lib fs path =
     (let pyproject = read_toml lib fs (path @ [''pyproject.toml'']) in
      ebind (tool_has pyproject ''basedpyright'') (\<lambda>b1.
      if b1 then Inr (Some ''basedpyright'', [(''config'', ''pyproject.toml'')]) else
      if path_exists fs (path @ [''pyrightconfig.json'']) then
        Inr (Some ''pyright'', [(''config'', ''pyrightconfig.json'')])
      else
        ebind (tool_has pyproject ''pyright'') (\<lambda>b2.
        if b2 then Inr (Some ''pyright'', [(''config'', ''pyproject.toml'')]) else
        if path_exists fs (path @ [''mypy.ini'']) then
          Inr (Some ''mypy'', [(''config'', ''mypy.ini'')])
        else if path_exists fs (path @ [''.mypy.ini'']) then
          Inr (Some ''mypy'', [(''config'', ''.mypy.ini'')])
        else
          ebind (tool_has pyproject ''mypy'') (\<lambda>b3.
          if b3 then Inr (Some ''mypy'', [(''config'', ''pyproject.toml'')]) else
          if has_section (read_ini lib fs (path @ [''setup.cfg''])) ''mypy'' then
            Inr (Some ''mypy'', [(''config'', ''setup.cfg'')])
          else if path_exists fs (path @ [''pytype.cfg'']) then
            Inr (Some ''pytype'', [(''config'', ''pytype.cfg'')])
          else Inr (None, [])))))"

definition detect_pre_commit :: "filesystem \<Rightarrow> path \<Rightarrow> bool" where
  "detect_pre_commit fs path = path_exists fs (path @ [''.pre-commit-config.yaml''])"

definition detect_ci :: "filesystem \<Rightarrow> path \<Rightarrow> detection" where
  "detect_ci fs path =
     (let gh_workflows = path @ [''.github'', ''workflows''];
          workflows = glob_dir fs gh_workflows (\<lambda>n. endswith n ''.yml'') in
      if path_exists fs gh_workflows \<and> workflows \<noteq> [] then
        (Some ''github-actions'', [(''workflows'', str_nat (length workflows))])
      else if path_exists fs (path @ [''.gitlab-ci.yml'']) then
        (Some ''gitlab-ci'', [(''config'', ''.gitlab-ci.yml'')])
      else if path_exists fs (path @ [''.travis.yml'']) then
        (Some ''travis-ci'', [(''config'', ''.travis.yml'')])
      else if path_exists fs (path @ [''.circleci'', ''config.yml'']) then
        (Some ''circleci'', [(''config'', ''.circleci/config.yml'')])
      else if path_exists fs (path @ [''azure-pipelines.yml'']) then
        (Some ''azure-pipelines'', [(''config'', ''azure-pipelines.yml'')])
      else (None, []))"

subsection \<open>Type-coverage analyzer\<close>

definition exclude_patterns :: "string list" where
  "exclude_patterns =
     [''venv'', ''.venv'', ''env'', ''.env'', ''node_modules'', ''__pycache__'', ''.git'',
      ''build'', ''dist'']"

definition has_annotation :: "fdef \<Rightarrow> bool" where
  "has_annotation f = (returns f \<or> list_ex (\<lambda>a. a) (arg_annotations f))"

text \<open>
  The loop over \<open>python_files\<close>, with the two counters. A file in an excluded directory
  is skipped (the test looks at every component of the path, those of the project root
  included); a file that does not decode or has a syntax error is skipped; a path that
  cannot be opened as a file raises, and so does any other exception of the parser,
  since only SyntaxError and UnicodeDecodeError are caught. All the functions of a file
  are counted only after it has been parsed.
\<close>

fun count_functions ::
  "pylib \<Rightarrow> filesystem \<Rightarrow> path list \<Rightarrow> nat \<Rightarrow> nat \<Rightarrow> py_error + (nat \<times> nat)" where
  "count_functions lib fs [] total_functions typed_functions =
     Inr (total_functions, typed_functions)"
| "count_functions lib fs (py_file # rest) total_functions typed_functions =
     (if list_ex (\<lambda>part. part \<in> set exclude_patterns) py_file then
        count_functions lib fs rest total_functions typed_functions
      else
        (case map_of fs py_file of
           Some (File bytes) \<Rightarrow>
             (case decode_utf8 lib bytes of
                None \<Rightarrow> count_functions lib fs rest total_functions typed_functions
              | Some source \<Rightarrow>
                  (case ast_function_defs lib source of
                     Inl e \<Rightarrow>
                       if e = SyntaxError
                       then count_functions lib fs rest total_functions typed_functions
                       else Inl e
                   | Inr defs \<Rightarrow>
                       count_functions lib fs rest
                         (total_functions + length defs)
                         (typed_functions + length (filter has_annotation defs))))
         | Some Dir \<Rightarrow> Inl IsADirectoryError
         | None \<Rightarrow> Inl (FileNotFoundError (path_str py_file))))"

text \<open>The result is (coverage, typed functions, total functions); the float is a real.\<close>

definition analyze_type_coverage ::
  "pylib \<Rightarrow> filesystem \<Rightarrow> path \<Rightarrow> py_error + (real \<times> nat \<times> nat)" where
  "analyze_type_coverage lib fs path =
     ebind (count_functions lib fs (glob_rec fs path (\<lambda>n. endswith n ''.py'')) 0 0)
       (\<lambda>(total_functions, typed_functions).
          if total_functions = 0 then Inr (100, 0, 0)
          else Inr ((real typed_functions / real total_functions) * 100,
                    typed_functions, total_functions))"

subsection \<open>Recommendation engine and scorer\<close>

definition append_rec :: "AuditResult \<Rightarrow> Recommendation \<Rightarrow> AuditResult" where
  "append_rec result r = result\<lparr>recommendations := recommendations result @ [r]\<rparr>"

definition tooling_rec :: "string \<Rightarrow> Severity \<Rightarrow> string option \<Rightarrow> Recommendation" where
  "tooling_rec msg sev act =
     \<lparr>category = TOOLING, message = msg, severity = sev, file_path = None, action = act\<rparr>"

definition quality_rec :: "string \<Rightarrow> Severity \<Rightarrow> Recommendation" where
  "quality_rec msg sev =
     \<lparr>category = CODE_QUALITY, message = msg, severity = sev, file_path = None,
      action = None\<rparr>"

text \<open>
  \<open>_generate_tooling_recommendations\<close> is a sequence of seven blocks, one for each kind
  of tool; each block appends at most one recommendation to the result.
\<close>

definition package_manager_recommendations :: "AuditResult \<Rightarrow> string option \<Rightarrow> AuditResult" where
  "package_manager_recommendations result pkg_manager =
     (if pkg_manager = Some ''poetry'' then
        append_rec result (tooling_rec
          ''Consider migrating from Poetry to uv for faster dependency resolution''
          INFO (Some ''quickforge upgrade . --from poetry''))
      else if pkg_manager = Some ''pip'' then
        append_rec result (tooling_rec
          ''Consider migrating from pip/requirements.txt to uv with pyproject.toml''
          INFO (Some ''quickforge upgrade . --from pip''))
      else if pkg_manager = Some ''pipenv'' then
        append_rec result (tooling_rec
          ''Consider migrating from Pipenv to uv for better performance''
          INFO (Some ''quickforge upgrade . --from pipenv''))
      else if pkg_manager = Some ''setuptools'' then
        append_rec result (tooling_rec
          ''Consider migrating from setup.py to pyproject.toml (PEP 621)''
          WARNING (Some ''quickforge upgrade . --from setuptools''))
      else if pkg_manager = None then
        append_rec result (tooling_rec
          ''No package manager detected. Consider adding a pyproject.toml''
          WARNING None)
      else result)"

definition linter_recommendations ::
  "AuditResult \<Rightarrow> string option \<Rightarrow> string option \<Rightarrow> AuditResult" where
  "linter_recommendations result linter formatter =
     (if linter = Some ''flake8'' then
        append_rec result (tooling_rec
          ''Consider migrating from flake8 to ruff for better performance''
          INFO (Some ''quickforge upgrade . (will migrate flake8 to ruff)''))
      else if linter = Some ''pylint'' then
        append_rec result (tooling_rec
          ''Consider migrating from pylint to ruff for better performance''
          INFO (Some ''quickforge upgrade . (will migrate pylint to ruff)''))
      else if linter = None \<and> formatter \<noteq> Some ''ruff'' then
        append_rec result (tooling_rec
          ''No linter detected. Consider adding ruff for code quality''
          WARNING (Some ''quickforge add pre-commit (includes ruff)''))
      else result)"

definition formatter_recommendations :: "AuditResult \<Rightarrow> string option \<Rightarrow> AuditResult" where
  "formatter_recommendations result formatter =
     (if formatter = Some ''black'' then
        append_rec result (tooling_rec
          ''Consider migrating from black to ruff format for better performance''
          INFO (Some ''quickforge upgrade . (will migrate black to ruff)''))
      else if formatter = Some ''autopep8'' then
        append_rec result (tooling_rec
          ''Consider migrating from autopep8 to ruff format'' INFO None)
      else if formatter = Some ''yapf'' then
        append_rec result (tooling_rec
          ''Consider migrating from yapf to ruff format'' INFO None)
      else result)"

definition import_sorter_recommendations :: "AuditResult \<Rightarrow> string option \<Rightarrow> AuditResult" where
  "import_sorter_recommendations result import_sorter =
     (if import_sorter = Some ''isort'' then
        append_rec result (tooling_rec
          ''Consider migrating from isort to ruff (handles import sorting)''
          INFO (Some ''quickforge upgrade . (will migrate isort to ruff)''))
      else result)"

definition type_checker_recommendations :: "AuditResult \<Rightarrow> string option \<Rightarrow> AuditResult" where
  "type_checker_recommendations result type_checker =
     (if type_checker = Some ''mypy'' then
        append_rec result (tooling_rec
          ''Consider migrating from mypy to basedpyright for stricter checking''
          INFO (Some ''quickforge upgrade . (will migrate mypy to basedpyright)''))
      else if type_checker = Some ''pytype'' then
        append_rec result (tooling_rec
          ''Consider migrating from pytype to basedpyright'' INFO None)
      else if type_checker = None then
        append_rec result (tooling_rec
          ''No type checker detected. Consider adding basedpyright'' WARNING None)
      else result)"

definition pre_commit_recommendations :: "AuditResult \<Rightarrow> bool \<Rightarrow> AuditResult" where
  "pre_commit_recommendations result has_pre_commit =
     (if \<not> has_pre_commit then
        append_rec result (tooling_rec
          ''No pre-commit hooks detected. Consider adding pre-commit''
          INFO (Some ''quickforge add pre-commit''))
      else result)"

definition ci_recommendations :: "AuditResult \<Rightarrow> string option \<Rightarrow> AuditResult" where
  "ci_recommendations result ci_system =
     (if ci_system = None then
        append_rec result (tooling_rec
          ''No CI/CD configuration detected. Consider adding GitHub Actions''
          INFO (Some ''quickforge add github-actions''))
      else result)"

definition generate_tooling_recommendations ::
  "AuditResult \<Rightarrow> string option \<Rightarrow> string option \<Rightarrow> string option \<Rightarrow> string option \<Rightarrow>
   string option \<Rightarrow> bool \<Rightarrow> string option \<Rightarrow> AuditResult" where
  "generate_tooling_recommendations result pkg_manager linter formatter import_sorter
       type_checker has_pre_commit ci_system =
     ci_recommendations
       (pre_commit_recommendations
         (type_checker_recommendations
           (import_sorter_recommendations
             (formatter_recommendations
               (linter_recommendations
                 (package_manager_recommendations result pkg_manager)
                 linter formatter)
               formatter)
             import_sorter)
           type_checker)
         has_pre_commit)
       ci_system"

definition generate_code_quality_recommendations ::
  "pylib \<Rightarrow> AuditResult \<Rightarrow> real \<Rightarrow> nat \<Rightarrow> nat \<Rightarrow> AuditResult" where
  "generate_code_quality_recommendations lib result type_coverage typed_functions
       total_functions =
     (if total_functions = 0 then result
      else if type_coverage < 25 then
        append_rec result (quality_rec
          (''Low type annotation coverage ('' @ fmt_float0 lib type_coverage @ ''%). '' @
           ''Only '' @ str_nat typed_functions @ ''/'' @ str_nat total_functions @
           '' functions have type hints'')
          WARNING)
      else if type_coverage < 50 then
        append_rec result (quality_rec
          (''Moderate type annotation coverage ('' @ fmt_float0 lib type_coverage @ ''%). '' @
           str_nat typed_functions @ ''/'' @ str_nat total_functions @
           '' functions have type hints'')
          INFO)
      else if type_coverage < 80 then
        append_rec result (quality_rec
          (''Good type annotation coverage ('' @ fmt_float0 lib type_coverage @ ''%). '' @
           ''Consider improving to 80%+'')
          INFO)
      else result)"

text \<open>The deduction of one pass of the loop of \<open>_calculate_score\<close>.\<close>

definition deduct :: "int \<Rightarrow> Recommendation \<Rightarrow> int" where
  "deduct sc rec =
     (if severity rec = CRITICAL then sc - 20
      else if severity rec = ERROR then sc - 10
      else if severity rec = WARNING then sc - 5
      else if severity rec = INFO then sc - 1
      else sc)"

definition calculate_score :: "AuditResult \<Rightarrow> int" where
  "calculate_score result = max 0 (min 100 (foldl deduct 100 (recommendations result)))"

subsection \<open>The audit\<close>

text \<open>\<open>if tool: result.tooling_detected[key] = tool\<close>.\<close>

definition record_tool ::
  "string \<Rightarrow> string option \<Rightarrow> (string \<times> string) list \<Rightarrow> (string \<times> string) list" where
  "record_tool key tool detected =
     (case tool of
        None \<Rightarrow> detected
      | Some t \<Rightarrow> if t = [] then detected else AList.update key t detected)"

text \<open>
  The part of \<open>audit_project\<close> that follows the detectors and the coverage analysis:
  it records the detected tools, generates the recommendations unless the tooling is
  modern, and computes the score.
\<close>

definition audit_findings ::
  "pylib \<Rightarrow> path \<Rightarrow> string option \<Rightarrow> string option \<Rightarrow> string option \<Rightarrow> string option \<Rightarrow>
   string option \<Rightarrow> bool \<Rightarrow> string option \<Rightarrow> real \<Rightarrow> nat \<Rightarrow> nat \<Rightarrow> AuditResult" where
  "audit_findings lib path pkg_manager linter formatter import_sorter type_checker
       has_pre_commit ci_system type_coverage typed_functions total_functions =
     (let detected =
            record_tool ''ci'' ci_system
              (record_tool ''pre_commit''
                 (if has_pre_commit then Some ''configured'' else None)
              (record_tool ''type_checker'' type_checker
              (record_tool ''import_sorter'' import_sorter
              (record_tool ''formatter'' formatter
              (record_tool ''linter'' linter
              (record_tool ''package_manager'' pkg_manager []))))));
          result0 =
            \<lparr>project_path = path, recommendations = [], score = 100,
             tooling_detected =
               AList.update ''type_coverage'' (fmt_float0 lib type_coverage @ ''%'')
                 detected\<rparr>;
          is_modern =
            (pkg_manager = Some ''uv'' \<and> linter = Some ''ruff'' \<and>
             (type_checker = Some ''basedpyright'' \<or> type_checker = Some ''pyright'') \<and>
             has_pre_commit);
          result1 =
            (if is_modern then
               result0\<lparr>tooling_detected :=
                 AList.update ''status'' ''modern'' (tooling_detected result0)\<rparr>
             else
               generate_code_quality_recommendations lib
                 (generate_tooling_recommendations result0 pkg_manager linter formatter
                    import_sorter type_checker has_pre_commit ci_system)
                 type_coverage typed_functions total_functions)
      in result1\<lparr>score := calculate_score result1\<rparr>)"

definition audit_project :: "pylib \<Rightarrow> filesystem \<Rightarrow> path \<Rightarrow> py_error + AuditResult" where
  "audit_project lib fs path =
     (if \<not> path_exists fs path then
        Inl (FileNotFoundError (''Path does not exist: '' @ path_str path))
      else if \<not> is_dir fs path then
        Inl (NotADirectoryError (''Path is not a directory: '' @ path_str path))
      else
        ebind (detect_package_manager lib fs path) (\<lambda>pkg.
        ebind (detect_linter lib fs path) (\<lambda>lnt.
        ebind (detect_formatter lib fs path) (\<lambda>fmt.
        ebind (detect_import_sorter lib fs path) (\<lambda>srt.
        ebind (detect_type_checker lib fs path) (\<lambda>tc.
        ebind (analyze_type_coverage lib fs path) (\<lambda>cov.
        Inr (audit_findings lib path (fst pkg) (fst lnt) (fst fmt) (fst srt) (fst tc)
               (detect_pre_commit fs path) (fst (detect_ci fs path))
               (fst cov) (fst (snd cov)) (snd (snd cov))))))))))"

section \<open>quickforge.upgrader\<close>

datatype SourceTool = POETRY | PIP | PIPENV | SETUPTOOLS

datatype MigrationType = PACKAGE_MANAGER | LINTER | FORMATTER | TYPE_CHECKER | CONFIG | CI_CD

record MigrationStep =
  migration_type :: MigrationType
  description :: string
  source :: string
  target :: string
  files_affected :: "path list"
  reversible :: bool

record UpgradeResult =
  success :: bool
  project_path :: path
  changes_made :: "string list"
  backup_path :: "path option"
  errors :: "string list"
  migration_steps :: "MigrationStep list"

subsection \<open>Writing to the file system\<close>

text \<open>
  \<open>p.open("w")\<close> followed by a write: the file is created or replaced; a directory
  cannot be opened for writing.
\<close>

definition write_file :: "filesystem \<Rightarrow> path \<Rightarrow> string \<Rightarrow> py_error + filesystem" where
  "write_file fs p content =
     (if is_dir fs p then Inl IsADirectoryError
      else Inr (AList.update p (File content) fs))"

text \<open>\<open>p.unlink()\<close>: only a regular file can be removed.\<close>

definition unlink :: "filesystem \<Rightarrow> path \<Rightarrow> py_error + filesystem" where
  "unlink fs p =
     (case map_of fs p of
        None \<Rightarrow> Inl (FileNotFoundError (path_str p))
      | Some Dir \<Rightarrow> Inl IsADirectoryError
      | Some (File b) \<Rightarrow> Inr (AList.delete p fs))"

text \<open>\<open>p.mkdir(exist_ok=True)\<close>; the parent of \<open>p\<close> is a directory wherever it is called.\<close>

definition mkdir_exist_ok :: "filesystem \<Rightarrow> path \<Rightarrow> py_error + filesystem" where
  "mkdir_exist_ok fs p =
     (case map_of fs p of
        None \<Rightarrow> Inr (AList.update p Dir fs)
      | Some Dir \<Rightarrow> Inr fs
      | Some (File b) \<Rightarrow> Inl FileExistsError)"

text \<open>
  \<open>shutil.copy2(src, dst)\<close>: the bytes of the file \<open>src\<close> are written to \<open>dst\<close>, or
  into \<open>dst\<close> under the name of \<open>src\<close> when \<open>dst\<close> is a directory. Times and
  permissions of files are not part of the model.
\<close>

definition copy2 :: "filesystem \<Rightarrow> path \<Rightarrow> path \<Rightarrow> py_error + filesystem" where
  "copy2 fs src dst =
     (case map_of fs src of
        None \<Rightarrow> Inl (FileNotFoundError (path_str src))
      | Some Dir \<Rightarrow> Inl IsADirectoryError
      | Some (File b) \<Rightarrow>
          (if is_dir fs dst then write_file fs (dst @ [last src]) b
           else write_file fs dst b))"

subsection \<open>Backup\<close>

definition backup_files :: "string list" where
  "backup_files =
     [''pyproject.toml'', ''poetry.lock'', ''requirements.txt'', ''requirements-dev.txt'',
      ''setup.py'', ''setup.cfg'', ''.flake8'', ''.isort.cfg'', ''mypy.ini'', ''.mypy.ini'',
      ''Pipfile'', ''Pipfile.lock'', ''.pre-commit-config.yaml'']"

definition backup_dir_of :: "pylib \<Rightarrow> path \<Rightarrow> path" where
  "backup_dir_of lib path = path @ [''.quickforge_backup_'' @ timestamp lib]"

text \<open>
  The loop of \<open>create_backup\<close>. An exception leaves the copies made so far in place, so
  the file system is returned in either case.
\<close>

fun copy_backup_files ::
  "filesystem \<Rightarrow> path \<Rightarrow> path \<Rightarrow> string list \<Rightarrow> filesystem \<times> py_error option" where
  "copy_backup_files fs path backup_dir [] = (fs, None)"
| "copy_backup_files fs path backup_dir (filename # rest) =
     (if path_exists fs (path @ [filename]) then
        (case copy2 fs (path @ [filename]) (backup_dir @ [filename]) of
           Inl e \<Rightarrow> (fs, Some e)
         | Inr fs' \<Rightarrow> copy_backup_files fs' path backup_dir rest)
      else copy_backup_files fs path backup_dir rest)"

definition create_backup :: "pylib \<Rightarrow> filesystem \<Rightarrow> path \<Rightarrow> filesystem \<times> (py_error + path)" where
  "create_backup lib fs path =
     (let backup_dir = backup_dir_of lib path in
      case mkdir_exist_ok fs backup_dir of
        Inl e \<Rightarrow> (fs, Inl e)
      | Inr fs1 \<Rightarrow>
          (case copy_backup_files fs1 path backup_dir backup_files of
             (fs2, Some e) \<Rightarrow> (fs2, Inl e)
           | (fs2, None) \<Rightarrow> (fs2, Inr backup_dir)))"

subsection \<open>TOML documents\<close>

text \<open>\<open>_read_toml_doc\<close>: the document, or \<open>None\<close> for a missing or unreadable file.\<close>

definition read_toml_doc :: "pylib \<Rightarrow> filesystem \<Rightarrow> path \<Rightarrow> toml_tab option" where
  "read_toml_doc lib fs p =
     (case map_of fs p of
        None \<Rightarrow> None
      | Some Dir \<Rightarrow> None
      | Some (File b) \<Rightarrow> tomlkit_load lib b)"

definition write_toml_doc ::
  "pylib \<Rightarrow> filesystem \<Rightarrow> path \<Rightarrow> toml_tab \<Rightarrow> py_error + filesystem" where
  "write_toml_doc lib fs p doc = write_file fs p (tomlkit_dumps lib doc)"

text \<open>
  A document counts as true in a condition when it has a key; \<open>_read_toml_doc(p) or d\<close>
  is the document read unless it is missing or empty.
\<close>

definition doc_or :: "toml_tab option \<Rightarrow> toml_tab \<Rightarrow> toml_tab" where
  "doc_or r d = (case r of None \<Rightarrow> d | Some doc \<Rightarrow> if doc = [] then d else doc)"

text \<open>
  \<open>_ensure_pyproject_exists\<close>; the comment line of the minimal document is not a key
  and is not represented.
\<close>

definition ensure_pyproject_exists :: "pylib \<Rightarrow> filesystem \<Rightarrow> path \<Rightarrow> toml_tab" where
  "ensure_pyproject_exists lib fs path =
     doc_or (read_toml_doc lib fs (path @ [''pyproject.toml'']))
       [(''project'', TTab [(''name'', TStr (if path = [] then [] else last path)),
                            (''version'', TStr ''0.1.0''),
                            (''requires-python'', TStr ''>=3.11'')]),
        (''build-system'', TTab [(''requires'', TArr [TStr ''hatchling'']),
                                 (''build-backend'', TStr ''hatchling.build'')])]"

text \<open>\<open>v[k] = x\<close>: only a table can be assigned to under a string key.\<close>

fun py_setitem :: "toml \<Rightarrow> string \<Rightarrow> toml \<Rightarrow> py_error + toml" where
  "py_setitem (TTab t) k x = Inr (TTab (AList.update k x t))"
| "py_setitem v k x = Inl TypeError"

text \<open>\<open>del v[k]\<close>.\<close>

fun py_delitem :: "toml \<Rightarrow> string \<Rightarrow> py_error + toml" where
  "py_delitem (TTab t) k =
     (if map_of t k = None then Inl KeyError else Inr (TTab (AList.delete k t)))"
| "py_delitem v k = Inl TypeError"

text \<open>\<open>v.items()\<close>: only a table has the method.\<close>

fun py_items :: "toml \<Rightarrow> py_error + (string \<times> toml) list" where
  "py_items (TTab t) = Inr t"
| "py_items v = Inl AttributeError"

text \<open>A loop whose body may raise, collecting what each pass appends.\<close>

fun emap :: "('a \<Rightarrow> py_error + 'b list) \<Rightarrow> 'a list \<Rightarrow> py_error + 'b list" where
  "emap f [] = Inr []"
| "emap f (x # xs) = ebind (f x) (\<lambda>ys. ebind (emap f xs) (\<lambda>zs. Inr (ys @ zs)))"

text \<open>
  What iterating over a value yields: the elements of an array, the characters of a
  string, the keys of a table; other values are not iterable.
\<close>

fun py_iter :: "toml \<Rightarrow> py_error + toml list" where
  "py_iter (TArr xs) = Inr xs"
| "py_iter (TStr s) = Inr (map (\<lambda>c. TStr [c]) s)"
| "py_iter (TTab t) = Inr (map (\<lambda>kv. TStr (fst kv)) t)"
| "py_iter v = Inl TypeError"

text \<open>A sequence of statements on a state, each of which may raise.\<close>

fun esteps :: "('s \<Rightarrow> py_error + 's) list \<Rightarrow> 's \<Rightarrow> py_error + 's" where
  "esteps [] st = Inr st"
| "esteps (f # fs) st = ebind (f st) (esteps fs)"

subsection \<open>Package manager migrations: Poetry\<close>

text \<open>
  The pattern that \<open>re.match\<close> applies to an author: a first group \<open>(.+?)\<close>,
  any whitespace, an opening angle bracket, a second group \<open>(.+?)\<close> and a closing
  angle bracket. \<open>find_close\<close> is the second group with the closing bracket: the
  shortest non-empty text without newline that a closing bracket follows.
  \<open>author_match\<close> tries the first group at every length from 1 on; after it the
  whitespace is skipped and an opening bracket must follow.
\<close>

fun find_close :: "string \<Rightarrow> string \<Rightarrow> string option" where
  "find_close acc [] = None"
| "find_close acc (c # cs) =
     (if acc \<noteq> [] \<and> c = CHR ''>'' then Some acc
      else if c = CHR 0x0A then None
      else find_close (acc @ [c]) cs)"

fun author_match :: "string \<Rightarrow> string \<Rightarrow> (string \<times> string) option" where
  "author_match acc [] = None"
| "author_match acc (c # cs) =
     (case (if acc = [] then None
            else case dropWhile is_space (c # cs) of
                   [] \<Rightarrow> None
                 | d # ds \<Rightarrow> if d = CHR ''<'' then find_close [] ds else None) of
        Some e \<Rightarrow> Some (acc, e)
      | None \<Rightarrow> if c = CHR 0x0A then None else author_match (acc @ [c]) cs)"

text \<open>What one element of \<open>poetry["authors"]\<close> appends to \<open>authors\<close>.\<close>

definition convert_author :: "toml \<Rightarrow> toml list" where
  "convert_author author =
     (case author of
        TStr s \<Rightarrow>
          (case author_match [] s of
             Some (n, e) \<Rightarrow> [TTab [(''name'', TStr (py_strip n)), (''email'', TStr e)]]
           | None \<Rightarrow> [TTab [(''name'', TStr s)]])
      | _ \<Rightarrow> [])"

text \<open>
  The conversion of a version given as a string: a caret or tilde becomes \<open>>=\<close>, a
  specification that begins with an operator is kept, anything else is pinned with
  \<open>==\<close>; \<open>spec[0]\<close> raises on the empty string.
\<close>

definition is_caret_or_tilde :: "string \<Rightarrow> bool" where
  "is_caret_or_tilde s = (startswith s ''^'' \<or> startswith s ''~'')"

definition convert_spec :: "string \<Rightarrow> string \<Rightarrow> py_error + string" where
  "convert_spec nm spec =
     (if is_caret_or_tilde spec then Inr (nm @ ''>='' @ drop 1 spec)
      else case spec of
             [] \<Rightarrow> Inl IndexError
           | c # cs \<Rightarrow> Inr (if c \<in> set ''<>=!'' then nm @ spec else nm @ ''=='' @ spec))"

text \<open>One pass of the loop over \<open>poetry["dependencies"].items()\<close>.\<close>

definition convert_dependency :: "string \<times> toml \<Rightarrow> py_error + toml list" where
  "convert_dependency item =
     (let nm = fst item; spec = snd item in
      if nm = ''python'' then Inr []
      else case spec of
             TStr s \<Rightarrow> ebind (convert_spec nm s) (\<lambda>r. Inr [TStr r])
           | TTab t \<Rightarrow>
               ebind (py_get spec ''version'' (TStr [])) (\<lambda>version.
                 case version of
                   TStr v \<Rightarrow>
                     (if is_caret_or_tilde v then Inr [TStr (nm @ ''>='' @ drop 1 v)]
                      else if v \<noteq> [] then ebind (convert_spec nm v) (\<lambda>r. Inr [TStr r])
                      else Inr [TStr nm])
                 | _ \<Rightarrow> Inl AttributeError)
           | _ \<Rightarrow> Inr [])"

text \<open>One pass of the two loops over development dependencies.\<close>

definition convert_dev_dependency :: "string \<times> toml \<Rightarrow> py_error + toml list" where
  "convert_dev_dependency item =
     (let nm = fst item; spec = snd item in
      case spec of
        TStr s \<Rightarrow> ebind (convert_spec nm s) (\<lambda>r. Inr [TStr r])
      | _ \<Rightarrow> Inr [TStr nm])"

text \<open>
  The statements of \<open>_migrate_poetry_to_uv\<close> that fill the \<open>[project]\<close> table. The
  state is the table \<open>project\<close> and the list \<open>changes\<close>.
\<close>

type_synonym pstate = "toml \<times> string list"

text \<open>
  \<open>if key in poetry: project[key] = wrap(poetry[key]); changes.append(...)\<close>, with the
  messages that the statement appends.
\<close>

definition copy_field ::
  "toml \<Rightarrow> string \<Rightarrow> (toml \<Rightarrow> toml) \<Rightarrow> (toml \<Rightarrow> string list) \<Rightarrow> pstate \<Rightarrow> py_error + pstate" where
  "copy_field poetry key wrap msgs st =
     ebind (py_in key poetry) (\<lambda>present.
       if present then
         ebind (py_getitem poetry key) (\<lambda>v.
         ebind (py_setitem (fst st) key (wrap v)) (\<lambda>project.
           Inr (project, snd st @ msgs v)))
       else Inr st)"

definition migrate_authors :: "toml \<Rightarrow> pstate \<Rightarrow> py_error + pstate" where
  "migrate_authors poetry st =
     ebind (py_in ''authors'' poetry) (\<lambda>present.
       if present then
         ebind (py_getitem poetry ''authors'') (\<lambda>v.
         ebind (py_iter v) (\<lambda>items.
           let authors = concat (map convert_author items) in
           if authors \<noteq> [] then
             ebind (py_setitem (fst st) ''authors'' (TArr authors)) (\<lambda>project.
               Inr (project, snd st @ [''Migrated authors'']))
           else Inr st))
       else Inr st)"

definition migrate_readme :: "filesystem \<Rightarrow> path \<Rightarrow> toml \<Rightarrow> pstate \<Rightarrow> py_error + pstate" where
  "migrate_readme fs path poetry st =
     ebind (py_in ''readme'' poetry) (\<lambda>present.
       if present then
         ebind (py_getitem poetry ''readme'') (\<lambda>v.
         ebind (py_setitem (fst st) ''readme'' v) (\<lambda>project. Inr (project, snd st)))
       else if path_exists fs (path @ [''README.md'']) then
         ebind (py_setitem (fst st) ''readme'' (TStr ''README.md'')) (\<lambda>project.
           Inr (project, snd st))
       else Inr st)"

definition migrate_python_requirement :: "toml \<Rightarrow> pstate \<Rightarrow> py_error + pstate" where
  "migrate_python_requirement poetry st =
     ebind (py_get poetry ''dependencies'' (TTab [])) (\<lambda>deps.
     ebind (py_in ''python'' deps) (\<lambda>present.
       if present then
         ebind (py_getitem poetry ''dependencies'') (\<lambda>d.
         ebind (py_getitem d ''python'') (\<lambda>python_req.
           case python_req of
             TStr r \<Rightarrow>
               (let req = (if is_caret_or_tilde r then ''>='' @ drop 1 r else r) in
                ebind (py_setitem (fst st) ''requires-python'' (TStr req)) (\<lambda>project.
                  Inr (project, snd st @ [''Migrated Python requirement: '' @ req])))
           | _ \<Rightarrow> Inl AttributeError))
       else Inr st))"

definition migrate_dependencies :: "toml \<Rightarrow> pstate \<Rightarrow> py_error + pstate" where
  "migrate_dependencies poetry st =
     ebind (py_in ''dependencies'' poetry) (\<lambda>present.
     ebind (if present then
              ebind (py_getitem poetry ''dependencies'') (\<lambda>d.
              ebind (py_items d) (emap convert_dependency))
            else Inr []) (\<lambda>deps.
       if deps \<noteq> [] then
         ebind (py_setitem (fst st) ''dependencies'' (TArr deps)) (\<lambda>project.
           Inr (project,
                snd st @ [''Migrated '' @ str_nat (length deps) @ '' dependencies'']))
       else Inr st))"

text \<open>The development dependencies of \<open>[tool.poetry.group.dev.dependencies]\<close>.\<close>

definition group_dev_dependencies :: "toml \<Rightarrow> py_error + toml list" where
  "group_dev_dependencies poetry =
     ebind (py_in ''group'' poetry) (\<lambda>has_group.
     ebind (if has_group then
              ebind (py_getitem poetry ''group'') (\<lambda>g. py_in ''dev'' g)
            else Inr False) (\<lambda>has_dev.
       if has_dev then
         ebind (py_getitem poetry ''group'') (\<lambda>g.
         ebind (py_getitem g ''dev'') (\<lambda>dev_section.
         ebind (py_in ''dependencies'' dev_section) (\<lambda>has_deps.
           if has_deps then
             ebind (py_getitem dev_section ''dependencies'') (\<lambda>d.
             ebind (py_items d) (emap convert_dev_dependency))
           else Inr [])))
       else Inr []))"

text \<open>The development dependencies of the old \<open>[tool.poetry.dev-dependencies]\<close>.\<close>

definition old_dev_dependencies :: "toml \<Rightarrow> py_error + toml list" where
  "old_dev_dependencies poetry =
     ebind (py_in ''dev-dependencies'' poetry) (\<lambda>present.
       if present then
         ebind (py_getitem poetry ''dev-dependencies'') (\<lambda>d.
         ebind (py_items d) (emap convert_dev_dependency))
       else Inr [])"

definition migrate_dev_dependencies :: "toml \<Rightarrow> pstate \<Rightarrow> py_error + pstate" where
  "migrate_dev_dependencies poetry st =
     ebind (group_dev_dependencies poetry) (\<lambda>group_deps.
     ebind (old_dev_dependencies poetry) (\<lambda>old_deps.
       let dev_deps = group_deps @ old_deps in
       if dev_deps \<noteq> [] then
         ebind (py_in ''optional-dependencies'' (fst st)) (\<lambda>has_optional.
         ebind (if has_optional then Inr (fst st)
                else py_setitem (fst st) ''optional-dependencies'' (TTab [])) (\<lambda>project1.
         ebind (py_getitem project1 ''optional-dependencies'') (\<lambda>optional.
         ebind (py_setitem optional ''dev'' (TArr dev_deps)) (\<lambda>optional1.
         ebind (py_setitem project1 ''optional-dependencies'' optional1) (\<lambda>project2.
           Inr (project2,
                snd st @ [''Migrated '' @ str_nat (length dev_deps) @
                          '' dev dependencies''])))))) 
       else Inr st))"

text \<open>
  The rewriting of the document by \<open>_migrate_poetry_to_uv\<close>, from the lookup of
  \<open>doc["tool"]["poetry"]\<close> to the removal of an empty \<open>[tool]\<close> table: the new document
  and the changes.
\<close>

definition poetry_rewrite ::
  "pylib \<Rightarrow> filesystem \<Rightarrow> path \<Rightarrow> toml_tab \<Rightarrow> py_error + (toml_tab \<times> string list)" where
  "poetry_rewrite lib fs path doc =
     ebind (py_getitem (TTab doc) ''tool'') (\<lambda>tool.
     ebind (py_getitem tool ''poetry'') (\<lambda>poetry.
     ebind (esteps
              [copy_field poetry ''name'' (\<lambda>v. v)
                 (\<lambda>v. [''Migrated project name: '' @ py_str lib v]),
               copy_field poetry ''version'' (\<lambda>v. v)
                 (\<lambda>v. [''Migrated version: '' @ py_str lib v]),
               copy_field poetry ''description'' (\<lambda>v. v) (\<lambda>v. [''Migrated description'']),
               migrate_authors poetry,
               migrate_readme fs path poetry,
               copy_field poetry ''license'' (\<lambda>v. TTab [(''text'', v)])
                 (\<lambda>v. [''Migrated license: '' @ py_str lib v]),
               copy_field poetry ''keywords'' (\<lambda>v. v) (\<lambda>v. [''Migrated keywords'']),
               copy_field poetry ''classifiers'' (\<lambda>v. v) (\<lambda>v. [''Migrated classifiers'']),
               migrate_python_requirement poetry,
               migrate_dependencies poetry,
               migrate_dev_dependencies poetry,
               copy_field poetry ''scripts'' (\<lambda>v. v)
                 (\<lambda>v. [''Migrated scripts/entry points''])]
              (case map_of doc ''project'' of None \<Rightarrow> TTab [] | Some p \<Rightarrow> p, []))
       (\<lambda>st.
     ebind (py_delitem tool ''poetry'') (\<lambda>tool1.
       let doc1 = AList.update ''project'' (fst st) doc;
           doc2 = AList.update ''build-system''
                    (TTab [(''requires'', TArr [TStr ''hatchling'']),
                           (''build-backend'', TStr ''hatchling.build'')]) doc1;
           doc3 = AList.update ''tool'' tool1 doc2;
           doc4 = (if tool1 = TTab [] then AList.delete ''tool'' doc3 else doc3)
       in Inr (doc4, snd st @ [''Updated build-system to use hatchling'',
                               ''Removed [tool.poetry] section''])))))"

text \<open>
  \<open>_migrate_poetry_to_uv\<close>. Nothing is written before the document has been rewritten
  completely, so an exception of the rewriting leaves the file system as it was; an
  exception while \<open>poetry.lock\<close> is removed comes after the document has been written.
\<close>

definition migrate_poetry_to_uv ::
  "pylib \<Rightarrow> filesystem \<Rightarrow> path \<Rightarrow> bool \<Rightarrow> filesystem \<times> (py_error + string list)" where
  "migrate_poetry_to_uv lib fs path dry_run =
     (let pyproject_path = path @ [''pyproject.toml''] in
      if \<not> path_exists fs pyproject_path then (fs, Inr [''No pyproject.toml found''])
      else case read_toml_doc lib fs pyproject_path of
        None \<Rightarrow> (fs, Inr [''Could not parse pyproject.toml''])
      | Some doc \<Rightarrow>
          if doc = [] then (fs, Inr [''Could not parse pyproject.toml''])
          else case tool_has (Some doc) ''poetry'' of
            Inl e \<Rightarrow> (fs, Inl e)
          | Inr False \<Rightarrow> (fs, Inr [''No [tool.poetry] section found''])
          | Inr True \<Rightarrow>
              (case poetry_rewrite lib fs path doc of
                 Inl e \<Rightarrow> (fs, Inl e)
               | Inr (doc', changes) \<Rightarrow>
                   if dry_run then (fs, Inr changes)
                   else case write_toml_doc lib fs pyproject_path doc' of
                     Inl e \<Rightarrow> (fs, Inl e)
                   | Inr fs1 \<Rightarrow>
                       if path_exists fs1 (path @ [''poetry.lock'']) then
                         (case unlink fs1 (path @ [''poetry.lock'']) of
                            Inl e \<Rightarrow> (fs1, Inl e)
                          | Inr fs2 \<Rightarrow>
                              (fs2, Inr (changes @ [''Wrote updated pyproject.toml'',
                                                    ''Removed poetry.lock''])))
                       else (fs1, Inr (changes @ [''Wrote updated pyproject.toml'']))))"

subsection \<open>Package manager migrations: requirements, Pipenv, setuptools\<close>

text \<open>
  Splitting a text at separator characters; the result has one more piece than there
  are separators.
\<close>

fun split_on :: "(char \<Rightarrow> bool) \<Rightarrow> string \<Rightarrow> string list" where
  "split_on sep [] = [[]]"
| "split_on sep (c # cs) =
     (if sep c then [] # split_on sep cs
      else case split_on sep cs of
             [] \<Rightarrow> [[c]]
           | piece # pieces \<Rightarrow> (c # piece) # pieces)"

text \<open>
  The lines of a text file opened with \<open>encoding="utf-8"\<close>, each stripped as the loops
  of the migrations do at once. A line ends at a line feed or a carriage return; the
  empty pieces that this gives between the two are lines that the loops skip.
\<close>

definition stripped_lines :: "pylib \<Rightarrow> filesystem \<Rightarrow> path \<Rightarrow> py_error + string list" where
  "stripped_lines lib fs p =
     (case map_of fs p of
        None \<Rightarrow> Inl (FileNotFoundError (path_str p))
      | Some Dir \<Rightarrow> Inl IsADirectoryError
      | Some (File b) \<Rightarrow>
          (case decode_utf8 lib b of
             None \<Rightarrow> Inl UnicodeDecodeError
           | Some text \<Rightarrow>
               Inr (map py_strip (split_on (\<lambda>c. c = CHR 0x0A \<or> c = CHR 0x0D) text))))"

text \<open>
  \<open>doc["project"][key] = value\<close>, after \<open>if "project" not in doc: doc["project"] =
  table()\<close> has been executed.
\<close>

definition set_project_key :: "string \<Rightarrow> toml \<Rightarrow> toml_tab \<Rightarrow> py_error + toml_tab" where
  "set_project_key key x doc =
     ebind (py_getitem (TTab doc) ''project'') (\<lambda>project.
     ebind (py_setitem project key x) (\<lambda>project1.
       Inr (AList.update ''project'' project1 doc)))"

text \<open>
  \<open>if "optional-dependencies" not in doc["project"]: ... = table()\<close> followed by
  \<open>doc["project"]["optional-dependencies"]["dev"] = dev_deps\<close>.
\<close>

definition set_optional_dev :: "toml list \<Rightarrow> toml_tab \<Rightarrow> py_error + toml_tab" where
  "set_optional_dev dev_deps doc =
     ebind (py_getitem (TTab doc) ''project'') (\<lambda>project.
     ebind (py_in ''optional-dependencies'' project) (\<lambda>has_optional.
     ebind (if has_optional then Inr project
            else py_setitem project ''optional-dependencies'' (TTab [])) (\<lambda>project1.
     ebind (py_getitem project1 ''optional-dependencies'') (\<lambda>optional.
     ebind (py_setitem optional ''dev'' (TArr dev_deps)) (\<lambda>optional1.
     ebind (py_setitem project1 ''optional-dependencies'' optional1) (\<lambda>project2.
       Inr (AList.update ''project'' project2 doc)))))))"

definition ensure_project :: "toml_tab \<Rightarrow> toml_tab" where
  "ensure_project doc =
     (if map_of doc ''project'' = None then AList.update ''project'' (TTab []) doc else doc)"

text \<open>The rewriting of the document by \<open>_migrate_requirements_to_uv\<close>.\<close>

definition requirements_rewrite ::
  "pylib \<Rightarrow> filesystem \<Rightarrow> path \<Rightarrow> string list \<Rightarrow> py_error + (toml_tab \<times> string list)" where
  "requirements_rewrite lib fs path deps =
     (let doc = ensure_project (ensure_pyproject_exists lib fs path) in
      ebind (set_project_key ''dependencies'' (TArr (map TStr deps)) doc) (\<lambda>doc1.
      let changes = [''Migrated '' @ str_nat (length deps) @
                     '' dependencies from requirements.txt''] in
      if path_exists fs (path @ [''requirements-dev.txt'']) then
        ebind (stripped_lines lib fs (path @ [''requirements-dev.txt''])) (\<lambda>lines.
          let dev_deps = filter (\<lambda>line. line \<noteq> [] \<and> \<not> startswith line ''#'' \<and>
                                         \<not> startswith line ''-'') lines in
          if dev_deps \<noteq> [] then
            ebind (set_optional_dev (map TStr dev_deps) doc1) (\<lambda>doc2.
              Inr (doc2, changes @ [''Migrated '' @ str_nat (length dev_deps) @
                                    '' dev dependencies from requirements-dev.txt'']))
          else Inr (doc1, changes))
      else Inr (doc1, changes)))"

definition migrate_requirements_to_uv ::
  "pylib \<Rightarrow> filesystem \<Rightarrow> path \<Rightarrow> bool \<Rightarrow> filesystem \<times> (py_error + string list)" where
  "migrate_requirements_to_uv lib fs path dry_run =
     (if \<not> path_exists fs (path @ [''requirements.txt'']) then
        (fs, Inr [''No requirements.txt found''])
      else case stripped_lines lib fs (path @ [''requirements.txt'']) of
        Inl e \<Rightarrow> (fs, Inl e)
      | Inr lines \<Rightarrow>
          (let deps = filter (\<lambda>line. line \<noteq> [] \<and> \<not> startswith line ''#'' \<and>
                                     \<not> (startswith line ''-r'' \<or> startswith line ''-e''))
                        lines in
           if deps = [] then (fs, Inr [''No dependencies found in requirements.txt''])
           else case requirements_rewrite lib fs path deps of
             Inl e \<Rightarrow> (fs, Inl e)
           | Inr (doc, changes) \<Rightarrow>
               if dry_run then (fs, Inr changes)
               else case write_toml_doc lib fs (path @ [''pyproject.toml'']) doc of
                 Inl e \<Rightarrow> (fs, Inl e)
               | Inr fs1 \<Rightarrow> (fs1, Inr (changes @ [''Wrote pyproject.toml'']))))"

text \<open>One pass of the loops over the packages of a Pipfile.\<close>

definition convert_pipfile_package :: "pylib \<Rightarrow> string \<times> toml \<Rightarrow> py_error + toml list" where
  "convert_pipfile_package lib item =
     (let nm = fst item; spec = snd item in
      case spec of
        TStr s \<Rightarrow> Inr [TStr (if s = ''*'' then nm else nm @ s)]
      | TTab t \<Rightarrow>
          (case map_of t ''version'' of
             Some v \<Rightarrow> Inr [TStr (nm @ py_str lib v)]
           | None \<Rightarrow> Inr [TStr nm])
      | _ \<Rightarrow> Inr [TStr nm])"

definition pipfile_packages :: "pylib \<Rightarrow> toml_tab \<Rightarrow> string \<Rightarrow> py_error + toml list" where
  "pipfile_packages lib pipfile_data section =
     (case map_of pipfile_data section of
        None \<Rightarrow> Inr []
      | Some packages \<Rightarrow> ebind (py_items packages) (emap (convert_pipfile_package lib)))"

text \<open>The rewriting of the document by \<open>_migrate_pipenv_to_uv\<close>.\<close>

definition pipenv_rewrite ::
  "pylib \<Rightarrow> filesystem \<Rightarrow> path \<Rightarrow> toml_tab \<Rightarrow> py_error + (toml_tab \<times> string list)" where
  "pipenv_rewrite lib fs path pipfile_data =
     (let doc = ensure_project (ensure_pyproject_exists lib fs path) in
      ebind (pipfile_packages lib pipfile_data ''packages'') (\<lambda>deps.
      ebind (if deps \<noteq> [] then
               ebind (set_project_key ''dependencies'' (TArr deps) doc) (\<lambda>d.
                 Inr (d, [''Migrated '' @ str_nat (length deps) @
                          '' dependencies from Pipfile'']))
             else Inr (doc, [])) (\<lambda>st1.
      ebind (pipfile_packages lib pipfile_data ''dev-packages'') (\<lambda>dev_deps.
      ebind (if dev_deps \<noteq> [] then
               ebind (set_optional_dev dev_deps (fst st1)) (\<lambda>d.
                 Inr (d, snd st1 @ [''Migrated '' @ str_nat (length dev_deps) @
                                    '' dev dependencies from Pipfile'']))
             else Inr st1) (\<lambda>st2.
      ebind (case map_of pipfile_data ''requires'' of
               None \<Rightarrow> Inr False
             | Some r \<Rightarrow> py_in ''python_version'' r) (\<lambda>has_version.
        if has_version then
          ebind (py_getitem (TTab pipfile_data) ''requires'') (\<lambda>r.
          ebind (py_getitem r ''python_version'') (\<lambda>py_version.
          ebind (set_project_key ''requires-python'' (TStr (''>='' @ py_str lib py_version))
                   (fst st2)) (\<lambda>d.
            Inr (d, snd st2 @ [''Migrated Python requirement: >='' @
                               py_str lib py_version]))))
        else Inr st2))))))"

definition migrate_pipenv_to_uv ::
  "pylib \<Rightarrow> filesystem \<Rightarrow> path \<Rightarrow> bool \<Rightarrow> filesystem \<times> (py_error + string list)" where
  "migrate_pipenv_to_uv lib fs path dry_run =
     (case map_of fs (path @ [''Pipfile'']) of
        None \<Rightarrow> (fs, Inr [''No Pipfile found''])
      | Some Dir \<Rightarrow> (fs, Inr [''Could not parse Pipfile: '' @ exc_str lib IsADirectoryError])
      | Some (File b) \<Rightarrow>
          (case tomllib_load lib b of
             None \<Rightarrow> (fs, Inr [''Could not parse Pipfile: '' @ exc_str lib ParseError])
           | Some pipfile_data \<Rightarrow>
               (case pipenv_rewrite lib fs path pipfile_data of
                  Inl e \<Rightarrow> (fs, Inl e)
                | Inr (doc, changes) \<Rightarrow>
                    if dry_run then (fs, Inr changes)
                    else case write_toml_doc lib fs (path @ [''pyproject.toml'']) doc of
                      Inl e \<Rightarrow> (fs, Inl e)
                    | Inr fs1 \<Rightarrow> (fs1, Inr (changes @ [''Wrote pyproject.toml''])))))"

text \<open>
  Statements run in sequence until one raises: the state reached and the exception, if
  any. What the statements before the failing one have done stays done.
\<close>

fun run_stmts :: "('s \<Rightarrow> py_error + 's) list \<Rightarrow> 's \<Rightarrow> 's \<times> py_error option" where
  "run_stmts [] st = (st, None)"
| "run_stmts (f # fs) st =
     (case f st of
        Inl e \<Rightarrow> (st, Some e)
      | Inr st' \<Rightarrow> run_stmts fs st')"

text \<open>\<open>config.has_option(section, option)\<close> and \<open>config.get(section, option)\<close>.\<close>

definition ini_option :: "ini \<Rightarrow> string \<Rightarrow> string \<Rightarrow> string option" where
  "ini_option config section option =
     (case map_of config section of None \<Rightarrow> None | Some items \<Rightarrow> map_of items option)"

text \<open>\<open>if config.has_option(section, option): project[key] = wrap(config.get(...))\<close>.\<close>

definition copy_option ::
  "ini \<Rightarrow> string \<Rightarrow> string \<Rightarrow> string \<Rightarrow> (string \<Rightarrow> toml) \<Rightarrow> pstate \<Rightarrow> py_error + pstate" where
  "copy_option config section option key wrap st =
     (case ini_option config section option of
        None \<Rightarrow> Inr st
      | Some v \<Rightarrow> ebind (py_setitem (fst st) key (wrap v)) (\<lambda>project. Inr (project, snd st)))"

text \<open>
  The body of the \<open>try\<close> of \<open>_migrate_setuptools_to_uv\<close> between the reading of
  \<open>setup.cfg\<close> and the writing of the document, as statements on the table \<open>project\<close>
  and the list \<open>changes\<close>: what an exception leaves of \<open>changes\<close> is returned.
\<close>

definition setup_cfg_statements :: "ini \<Rightarrow> (pstate \<Rightarrow> py_error + pstate) list" where
  "setup_cfg_statements config =
     (if map_of config ''metadata'' \<noteq> None then
        [copy_option config ''metadata'' ''name'' ''name'' TStr,
         copy_option config ''metadata'' ''version'' ''version'' TStr,
         copy_option config ''metadata'' ''description'' ''description'' TStr,
         copy_option config ''metadata'' ''author'' ''authors''
           (\<lambda>a. TArr [TTab ((''name'', TStr a) #
                   (case ini_option config ''metadata'' ''author_email'' of
                      None \<Rightarrow> []
                    | Some m \<Rightarrow> [(''email'', TStr m)]))]),
         copy_option config ''metadata'' ''license'' ''license''
           (\<lambda>l. TTab [(''text'', TStr l)]),
         (\<lambda>st. Inr (fst st, snd st @ [''Migrated metadata from setup.cfg'']))]
      else []) @
     (if map_of config ''options'' \<noteq> None then
        [copy_option config ''options'' ''python_requires'' ''requires-python'' TStr,
         (\<lambda>st. case ini_option config ''options'' ''install_requires'' of
                 None \<Rightarrow> Inr st
               | Some v \<Rightarrow>
                   (let deps = filter (\<lambda>d. d \<noteq> [])
                                 (map py_strip (split_on (\<lambda>c. c = CHR 0x0A) (py_strip v))) in
                    ebind (py_setitem (fst st) ''dependencies'' (TArr (map TStr deps)))
                      (\<lambda>project. Inr (project, snd st @
                         [''Migrated '' @ str_nat (length deps) @ '' dependencies'']))))]
      else [])"

definition setup_cfg_warning :: "pylib \<Rightarrow> py_error \<Rightarrow> string" where
  "setup_cfg_warning lib e = ''Warning: Could not fully parse setup.cfg: '' @ exc_str lib e"

text \<open>
  \<open>_migrate_setuptools_to_uv\<close>: every exception is caught inside, so it always returns
  its list of changes.
\<close>

definition migrate_setuptools_to_uv ::
  "pylib \<Rightarrow> filesystem \<Rightarrow> path \<Rightarrow> bool \<Rightarrow> filesystem \<times> string list" where
  "migrate_setuptools_to_uv lib fs path dry_run =
     (let setup_cfg = path @ [''setup.cfg''];
          (fs1, changes) =
            (if path_exists fs setup_cfg then
               (case read_ini lib fs setup_cfg of
                  None \<Rightarrow> (fs, [setup_cfg_warning lib ParseError])
                | Some config \<Rightarrow>
                    (let doc = ensure_project (ensure_pyproject_exists lib fs path) in
                     case py_getitem (TTab doc) ''project'' of
                       Inl e \<Rightarrow> (fs, [setup_cfg_warning lib e])
                     | Inr project \<Rightarrow>
                         (case run_stmts (setup_cfg_statements config) (project, []) of
                            (st, Some e) \<Rightarrow> (fs, snd st @ [setup_cfg_warning lib e])
                          | (st, None) \<Rightarrow>
                              if dry_run then (fs, snd st)
                              else case write_toml_doc lib fs (path @ [''pyproject.toml''])
                                          (AList.update ''project'' (fst st) doc) of
                                Inl e \<Rightarrow> (fs, snd st @ [setup_cfg_warning lib e])
                              | Inr fs' \<Rightarrow> (fs', snd st @ [''Wrote pyproject.toml'']))))
             else (fs, []))
      in (fs1,
          changes @
          (if path_exists fs1 (path @ [''setup.py'']) \<and> \<not> path_exists fs1 setup_cfg then
             [''Found setup.py - manual migration recommended'',
              ''Tip: Run '' @ [CHR 0x27] @ ''python setup.py egg_info'' @ [CHR 0x27] @
              '' to extract metadata'']
           else [])))"

subsection \<open>Linter, formatter and type checker migrations\<close>

text \<open>
  These migrations change the document of the caller in place. \<open>doc_get\<close>,
  \<open>doc_set\<close> and \<open>doc_del\<close> are \<open>doc[k1]...[kn]\<close>, the assignment to it and its
  deletion; an alias such as \<open>ruff = tool["ruff"]\<close> is the path to the table.
\<close>

fun get_in :: "toml \<Rightarrow> string list \<Rightarrow> py_error + toml" where
  "get_in v [] = Inr v"
| "get_in v (k # ks) = ebind (py_getitem v k) (\<lambda>sub. get_in sub ks)"

fun set_in :: "toml \<Rightarrow> string list \<Rightarrow> toml \<Rightarrow> py_error + toml" where
  "set_in v [] x = Inr x"
| "set_in v (k # ks) x =
     (if ks = [] then py_setitem v k x
      else ebind (py_getitem v k) (\<lambda>sub.
           ebind (set_in sub ks x) (\<lambda>sub1. py_setitem v k sub1)))"

fun del_in :: "toml \<Rightarrow> string list \<Rightarrow> py_error + toml" where
  "del_in v [] = Inl KeyError"
| "del_in v (k # ks) =
     (if ks = [] then py_delitem v k
      else ebind (py_getitem v k) (\<lambda>sub.
           ebind (del_in sub ks) (\<lambda>sub1. py_setitem v k sub1)))"

definition as_table :: "py_error + toml \<Rightarrow> py_error + toml_tab" where
  "as_table r = ebind r (\<lambda>v. case v of TTab d \<Rightarrow> Inr d | _ \<Rightarrow> Inl TypeError)"

definition doc_get :: "string list \<Rightarrow> toml_tab \<Rightarrow> py_error + toml" where
  "doc_get ks doc = get_in (TTab doc) ks"

definition doc_set :: "string list \<Rightarrow> toml \<Rightarrow> toml_tab \<Rightarrow> py_error + toml_tab" where
  "doc_set ks x doc = as_table (set_in (TTab doc) ks x)"

definition doc_del :: "string list \<Rightarrow> toml_tab \<Rightarrow> py_error + toml_tab" where
  "doc_del ks doc = as_table (del_in (TTab doc) ks)"

text \<open>The state of a migration: the document and the local list \<open>changes\<close>.\<close>

type_synonym dstate = "toml_tab \<times> string list"

text \<open>An expression that is evaluated for a later statement and may raise here.\<close>

definition evaluate :: "(toml_tab \<Rightarrow> py_error + 'a) \<Rightarrow> dstate \<Rightarrow> py_error + dstate" where
  "evaluate f st = ebind (f (fst st)) (\<lambda>v. Inr st)"

text \<open>\<open>if k not in parent: parent[k] = tomlkit.table()\<close>, for the path to \<open>parent[k]\<close>.\<close>

definition ensure_table :: "string list \<Rightarrow> dstate \<Rightarrow> py_error + dstate" where
  "ensure_table ks st =
     ebind (doc_get (butlast ks) (fst st)) (\<lambda>parent.
     ebind (py_in (last ks) parent) (\<lambda>present.
       if present then Inr st
       else ebind (doc_set ks (TTab []) (fst st)) (\<lambda>d. Inr (d, snd st))))"

text \<open>\<open>target = value; changes.append(...)\<close>.\<close>

definition assign :: "string list \<Rightarrow> toml \<Rightarrow> string list \<Rightarrow> dstate \<Rightarrow> py_error + dstate" where
  "assign dest x msgs st = ebind (doc_set dest x (fst st)) (\<lambda>d. Inr (d, snd st @ msgs))"

text \<open>
  \<open>if key in config: target = config[key]; changes.append(...)\<close>, where \<open>config\<close> is a
  table read from the document when the migration began.
\<close>

definition carry_over ::
  "(toml_tab \<Rightarrow> py_error + toml) \<Rightarrow> string \<Rightarrow> string list \<Rightarrow> (toml \<Rightarrow> string list) \<Rightarrow>
   dstate \<Rightarrow> py_error + dstate" where
  "carry_over config_of key dest msgs st =
     ebind (config_of (fst st)) (\<lambda>config.
     ebind (py_in key config) (\<lambda>present.
       if present then ebind (py_getitem config key) (\<lambda>v. assign dest v (msgs v) st)
       else Inr st))"

text \<open>\<open>if key in tool: del tool[key]; changes.append(...)\<close>.\<close>

definition remove_section :: "string \<Rightarrow> string \<Rightarrow> dstate \<Rightarrow> py_error + dstate" where
  "remove_section key msg st =
     ebind (doc_get [''tool''] (fst st)) (\<lambda>tool.
     ebind (py_in key tool) (\<lambda>present.
       if present then
         ebind (doc_del [''tool'', key] (fst st)) (\<lambda>d. Inr (d, snd st @ [msg]))
       else Inr st))"

text \<open>\<open>tool.get(key, {})\<close>, the configuration of the tool that is migrated.\<close>

definition tool_config :: "string \<Rightarrow> toml_tab \<Rightarrow> py_error + toml" where
  "tool_config key doc = ebind (doc_get [''tool''] doc) (\<lambda>tool. py_get tool key (TTab []))"

text \<open>
  A migration of the document: its statements are run on the document with an empty
  list of changes; the document keeps what was done before an exception, the changes
  are returned only without one.
\<close>

definition run_doc_migration ::
  "(dstate \<Rightarrow> py_error + dstate) list \<Rightarrow> toml_tab \<Rightarrow> toml_tab \<times> (py_error + string list)" where
  "run_doc_migration stmts doc =
     (case run_stmts stmts (doc, []) of
        (st, Some e) \<Rightarrow> (fst st, Inl e)
      | (st, None) \<Rightarrow> (fst st, Inr (snd st)))"

text \<open>
  The removal of legacy files at the end of a migration:
  \<open>if f.exists() and not dry_run: f.unlink(); changes.append(...)\<close> for each file.
\<close>

fun remove_files ::
  "filesystem \<Rightarrow> path \<Rightarrow> bool \<Rightarrow> (string \<times> string) list \<Rightarrow> string list \<Rightarrow>
   filesystem \<times> (py_error + string list)" where
  "remove_files fs path dry_run [] changes = (fs, Inr changes)"
| "remove_files fs path dry_run ((filename, msg) # rest) changes =
     (if path_exists fs (path @ [filename]) \<and> \<not> dry_run then
        (case unlink fs (path @ [filename]) of
           Inl e \<Rightarrow> (fs, Inl e)
         | Inr fs' \<Rightarrow> remove_files fs' path dry_run rest (changes @ [msg]))
      else remove_files fs path dry_run rest changes)"

text \<open>A migration of the document followed by the removal of legacy files.\<close>

definition migrate_then_remove ::
  "(dstate \<Rightarrow> py_error + dstate) list \<Rightarrow> (string \<times> string) list \<Rightarrow>
   filesystem \<Rightarrow> path \<Rightarrow> toml_tab \<Rightarrow> bool \<Rightarrow>
   (filesystem \<times> toml_tab) \<times> (py_error + string list)" where
  "migrate_then_remove stmts files fs path doc dry_run =
     (case run_doc_migration stmts doc of
        (doc', Inl e) \<Rightarrow> ((fs, doc'), Inl e)
      | (doc', Inr changes) \<Rightarrow>
          (case remove_files fs path dry_run files changes of
             (fs', r) \<Rightarrow> ((fs', doc'), r)))"

text \<open>The statements of \<open>_migrate_black_to_ruff\<close>.\<close>

definition black_target_version :: "dstate \<Rightarrow> py_error + dstate" where
  "black_target_version st =
     ebind (tool_config ''black'' (fst st)) (\<lambda>black_config.
     ebind (py_in ''target-version'' black_config) (\<lambda>present.
       if present then
         ebind (py_getitem black_config ''target-version'') (\<lambda>versions.
           if truthy versions then
             (case (case versions of TArr xs \<Rightarrow> last xs | _ \<Rightarrow> versions) of
                TStr t \<Rightarrow>
                  if startswith t ''py'' then
                    (if length t < 3 then Inl IndexError
                     else assign [''tool'', ''ruff'', ''target-version'']
                            (TStr (''py'' @ [t ! 2] @ drop 3 t))
                            [''Migrated target-version: '' @ ''py'' @ [t ! 2] @ drop 3 t] st)
                  else Inr st
              | _ \<Rightarrow> Inr st)
           else Inr st)
       else Inr st))"

definition black_line_length :: "pylib \<Rightarrow> dstate \<Rightarrow> py_error + dstate" where
  "black_line_length lib st =
     ebind (tool_config ''black'' (fst st)) (\<lambda>black_config.
     ebind (py_in ''line-length'' black_config) (\<lambda>present.
       if present then
         ebind (py_getitem black_config ''line-length'') (\<lambda>v.
           assign [''tool'', ''ruff'', ''line-length''] v
             [''Migrated line-length: '' @ py_str lib v] st)
       else
         ebind (doc_get [''tool'', ''ruff''] (fst st)) (\<lambda>ruff.
         ebind (py_in ''line-length'' ruff) (\<lambda>has_length.
           if \<not> has_length then
             assign [''tool'', ''ruff'', ''line-length''] (TInt 88)
               [''Set line-length to 88 (Black default)''] st
           else Inr st))))"

definition black_statements :: "pylib \<Rightarrow> (dstate \<Rightarrow> py_error + dstate) list" where
  "black_statements lib =
     [ensure_table [''tool''],
      evaluate (tool_config ''black''),
      ensure_table [''tool'', ''ruff''],
      evaluate (doc_get [''tool'', ''ruff'']),
      black_line_length lib,
      black_target_version,
      ensure_table [''tool'', ''ruff'', ''format''],
      assign [''tool'', ''ruff'', ''format'', ''quote-style''] (TStr ''double'') [],
      carry_over (tool_config ''black'') ''skip-magic-trailing-comma''
        [''tool'', ''ruff'', ''format'', ''skip-magic-trailing-comma''] (\<lambda>v. []),
      remove_section ''black'' ''Removed [tool.black] section'']"

definition migrate_black_to_ruff ::
  "pylib \<Rightarrow> filesystem \<Rightarrow> path \<Rightarrow> toml_tab \<Rightarrow> bool \<Rightarrow>
   (filesystem \<times> toml_tab) \<times> (py_error + string list)" where
  "migrate_black_to_ruff lib fs path doc dry_run =
     migrate_then_remove (black_statements lib) [] fs path doc dry_run"

text \<open>The statements of \<open>_migrate_isort_to_ruff\<close>.\<close>

definition isort_select :: "dstate \<Rightarrow> py_error + dstate" where
  "isort_select st =
     ebind (doc_get [''tool'', ''ruff'', ''lint''] (fst st)) (\<lambda>lint.
     ebind (py_in ''select'' lint) (\<lambda>present.
       if \<not> present then
         assign [''tool'', ''ruff'', ''lint'', ''select'']
           (TArr [TStr ''E'', TStr ''F'', TStr ''I''])
           [''Added I (isort) rules to ruff lint.select''] st
       else
         ebind (py_getitem lint ''select'') (\<lambda>select.
         ebind (py_in ''I'' select) (\<lambda>has_I.
           if \<not> has_I then
             (case select of
                TArr xs \<Rightarrow>
                  assign [''tool'', ''ruff'', ''lint'', ''select''] (TArr (xs @ [TStr ''I'']))
                    [''Added I (isort) to ruff lint.select''] st
              | _ \<Rightarrow> Inl AttributeError)
           else Inr st))))"

definition isort_statements :: "(dstate \<Rightarrow> py_error + dstate) list" where
  "isort_statements =
     [ensure_table [''tool''],
      evaluate (tool_config ''isort''),
      ensure_table [''tool'', ''ruff''],
      ensure_table [''tool'', ''ruff'', ''lint''],
      ensure_table [''tool'', ''ruff'', ''lint'', ''isort''],
      evaluate (doc_get [''tool'', ''ruff'', ''lint'', ''isort'']),
      carry_over (tool_config ''isort'') ''known_first_party''
        [''tool'', ''ruff'', ''lint'', ''isort'', ''known-first-party'']
        (\<lambda>v. [''Migrated known_first_party'']),
      carry_over (tool_config ''isort'') ''known_third_party''
        [''tool'', ''ruff'', ''lint'', ''isort'', ''known-third-party'']
        (\<lambda>v. [''Migrated known_third_party'']),
      carry_over (tool_config ''isort'') ''known_local_folder''
        [''tool'', ''ruff'', ''lint'', ''isort'', ''known-local-folder'']
        (\<lambda>v. [''Migrated known_local_folder'']),
      carry_over (tool_config ''isort'') ''force_single_line''
        [''tool'', ''ruff'', ''lint'', ''isort'', ''force-single-line'']
        (\<lambda>v. [''Migrated force_single_line'']),
      carry_over (tool_config ''isort'') ''combine_as_imports''
        [''tool'', ''ruff'', ''lint'', ''isort'', ''combine-as-imports'']
        (\<lambda>v. [''Migrated combine_as_imports'']),
      isort_select,
      remove_section ''isort'' ''Removed [tool.isort] section'']"

definition migrate_isort_to_ruff ::
  "pylib \<Rightarrow> filesystem \<Rightarrow> path \<Rightarrow> toml_tab \<Rightarrow> bool \<Rightarrow>
   (filesystem \<times> toml_tab) \<times> (py_error + string list)" where
  "migrate_isort_to_ruff lib fs path doc dry_run =
     migrate_then_remove isort_statements [(''.isort.cfg'', ''Removed .isort.cfg file'')]
       fs path doc dry_run"

text \<open>
  \<open>int(s)\<close> of a string: surrounding whitespace, an optional sign, then decimal digits
  in groups separated by single underscores; \<open>None\<close> where Python raises ValueError.
\<close>

definition is_digit :: "char \<Rightarrow> bool" where
  "is_digit c = (c \<in> set ''0123456789'')"

definition digit_value :: "char \<Rightarrow> int" where
  "digit_value c = int (of_char c - 48)"

definition py_int :: "string \<Rightarrow> int option" where
  "py_int s0 =
     (let s = py_strip s0;
          negative = (s \<noteq> [] \<and> hd s = CHR ''-'');
          body = (if s \<noteq> [] \<and> (hd s = CHR ''-'' \<or> hd s = CHR ''+'') then tl s else s);
          groups = split_on (\<lambda>c. c = CHR ''_'') body
      in if list_all (\<lambda>g. g \<noteq> [] \<and> list_all is_digit g) groups then
           (let n = foldl (\<lambda>a c. 10 * a + digit_value c) 0 (concat groups)
            in Some (if negative then - n else n))
         else None)"

text \<open>\<open>[i.strip() for i in s.split(",") if i.strip()]\<close>.\<close>

definition comma_list :: "string \<Rightarrow> string list" where
  "comma_list s = filter (\<lambda>i. i \<noteq> []) (map py_strip (split_on (\<lambda>c. c = CHR '','') s))"

text \<open>
  The dictionary \<open>flake8_config\<close>: the items of the section \<open>[flake8]\<close> of the file
  \<open>.flake8\<close>, empty when the file is missing, does not parse or has no such section.
\<close>

definition read_flake8_config :: "pylib \<Rightarrow> filesystem \<Rightarrow> path \<Rightarrow> (string \<times> string) list" where
  "read_flake8_config lib fs path =
     (if path_exists fs (path @ [''.flake8'']) then
        (case read_ini lib fs (path @ [''.flake8'']) of
           None \<Rightarrow> []
         | Some config \<Rightarrow> (case map_of config ''flake8'' of None \<Rightarrow> [] | Some items \<Rightarrow> items))
      else [])"

text \<open>The statements of \<open>_migrate_flake8_to_ruff\<close>.\<close>

definition flake8_statements :: "(string \<times> string) list \<Rightarrow> (dstate \<Rightarrow> py_error + dstate) list" where
  "flake8_statements flake8_config =
     [ensure_table [''tool''],
      ensure_table [''tool'', ''ruff''],
      ensure_table [''tool'', ''ruff'', ''lint''],
      evaluate (doc_get [''tool'', ''ruff'', ''lint'']),
      (\<lambda>st. case map_of flake8_config ''max-line-length'' of
              None \<Rightarrow> Inr st
            | Some v \<Rightarrow>
                (case py_int v of
                   None \<Rightarrow> Inl (ValueError (''invalid literal for int() with base 10: '' @ v))
                 | Some n \<Rightarrow>
                     assign [''tool'', ''ruff'', ''line-length''] (TInt n)
                       [''Migrated max-line-length: '' @ v] st)),
      (\<lambda>st. case map_of flake8_config ''ignore'' of
              None \<Rightarrow> Inr st
            | Some v \<Rightarrow>
                assign [''tool'', ''ruff'', ''lint'', ''ignore''] (TArr (map TStr (comma_list v)))
                  [''Migrated '' @ str_nat (length (comma_list v)) @ '' ignore rules''] st),
      (\<lambda>st. case map_of flake8_config ''exclude'' of
              None \<Rightarrow> Inr st
            | Some v \<Rightarrow>
                assign [''tool'', ''ruff'', ''exclude''] (TArr (map TStr (comma_list v)))
                  [''Migrated '' @ str_nat (length (comma_list v)) @ '' exclude patterns''] st),
      (\<lambda>st. ebind (doc_get [''tool'', ''ruff'', ''lint''] (fst st)) (\<lambda>ruff_lint.
             ebind (py_in ''select'' ruff_lint) (\<lambda>present.
               if \<not> present then
                 assign [''tool'', ''ruff'', ''lint'', ''select'']
                   (TArr [TStr ''E'', TStr ''F'', TStr ''W''])
                   [''Added E, F, W rules to ruff lint.select''] st
               else Inr st)))]"

definition migrate_flake8_to_ruff ::
  "pylib \<Rightarrow> filesystem \<Rightarrow> path \<Rightarrow> toml_tab \<Rightarrow> bool \<Rightarrow>
   (filesystem \<times> toml_tab) \<times> (py_error + string list)" where
  "migrate_flake8_to_ruff lib fs path doc dry_run =
     migrate_then_remove (flake8_statements (read_flake8_config lib fs path))
       [(''.flake8'', ''Removed .flake8 file'')] fs path doc dry_run"

text \<open>The statements of \<open>_migrate_mypy_to_basedpyright\<close>.\<close>

definition mypy_flag :: "string \<Rightarrow> toml_tab \<Rightarrow> py_error + bool" where
  "mypy_flag key doc =
     ebind (tool_config ''mypy'' doc) (\<lambda>mypy_config.
     ebind (py_get mypy_config key (TBool False)) (\<lambda>v. Inr (truthy v)))"

definition mypy_mode :: "dstate \<Rightarrow> py_error + dstate" where
  "mypy_mode st =
     ebind (mypy_flag ''strict'' (fst st)) (\<lambda>strict.
       if strict then
         assign [''tool'', ''basedpyright'', ''typeCheckingMode''] (TStr ''strict'')
           [''Set typeCheckingMode to strict (from mypy strict)''] st
       else
         ebind (mypy_flag ''warn_return_any'' (fst st)) (\<lambda>warn.
         ebind (if warn then Inr True
                else mypy_flag ''disallow_untyped_defs'' (fst st)) (\<lambda>middle.
           if middle then
             assign [''tool'', ''basedpyright'', ''typeCheckingMode''] (TStr ''standard'')
               [''Set typeCheckingMode to standard''] st
           else
             assign [''tool'', ''basedpyright'', ''typeCheckingMode''] (TStr ''basic'')
               [''Set typeCheckingMode to basic''] st)))"

definition mypy_statements :: "pylib \<Rightarrow> (dstate \<Rightarrow> py_error + dstate) list" where
  "mypy_statements lib =
     [ensure_table [''tool''],
      evaluate (tool_config ''mypy''),
      ensure_table [''tool'', ''basedpyright''],
      evaluate (doc_get [''tool'', ''basedpyright'']),
      mypy_mode,
      carry_over (tool_config ''mypy'') ''python_version''
        [''tool'', ''basedpyright'', ''pythonVersion'']
        (\<lambda>v. [''Migrated python_version: '' @ py_str lib v]),
      (\<lambda>st. ebind (mypy_flag ''ignore_missing_imports'' (fst st)) (\<lambda>ignore.
               if ignore then
                 assign [''tool'', ''basedpyright'', ''reportMissingImports''] (TBool False)
                   [''Migrated ignore_missing_imports''] st
               else Inr st)),
      remove_section ''mypy'' ''Removed [tool.mypy] section'']"

definition migrate_mypy_to_basedpyright ::
  "pylib \<Rightarrow> filesystem \<Rightarrow> path \<Rightarrow> toml_tab \<Rightarrow> bool \<Rightarrow>
   (filesystem \<times> toml_tab) \<times> (py_error + string list)" where
  "migrate_mypy_to_basedpyright lib fs path doc dry_run =
     migrate_then_remove (mypy_statements lib)
       [(''mypy.ini'', ''Removed mypy.ini''), (''.mypy.ini'', ''Removed .mypy.ini'')]
       fs path doc dry_run"

subsection \<open>Migration planner\<close>

text \<open>\<open>tool_map.get(pkg_manager)\<close>, and \<open>SourceTool(from_tool)\<close> with its ValueError caught.\<close>

definition source_tool_of :: "string \<Rightarrow> SourceTool option" where
  "source_tool_of s =
     (if s = ''poetry'' then Some POETRY
      else if s = ''pip'' then Some PIP
      else if s = ''pipenv'' then Some PIPENV
      else if s = ''setuptools'' then Some SETUPTOOLS
      else None)"

definition detect_source_tool :: "pylib \<Rightarrow> filesystem \<Rightarrow> path \<Rightarrow> py_error + SourceTool option" where
  "detect_source_tool lib fs path =
     ebind (detect_package_manager lib fs path) (\<lambda>pkg.
       Inr (case fst pkg of None \<Rightarrow> None | Some pkg_manager \<Rightarrow> source_tool_of pkg_manager))"

definition new_step ::
  "MigrationType \<Rightarrow> string \<Rightarrow> string \<Rightarrow> string \<Rightarrow> path list \<Rightarrow> MigrationStep" where
  "new_step mt descr src tgt files =
     \<lparr>migration_type = mt, description = descr, source = src, target = tgt,
      files_affected = files, reversible = True\<rparr>"

definition package_manager_steps :: "path \<Rightarrow> SourceTool option \<Rightarrow> MigrationStep list" where
  "package_manager_steps path source_tool =
     (if source_tool = Some POETRY then
        [new_step PACKAGE_MANAGER ''Convert Poetry pyproject.toml to PEP 621 format for uv''
           ''poetry'' ''uv'' [path @ [''pyproject.toml''], path @ [''poetry.lock'']]]
      else if source_tool = Some PIP then
        [new_step PACKAGE_MANAGER ''Convert requirements.txt to pyproject.toml for uv''
           ''pip'' ''uv'' [path @ [''requirements.txt''], path @ [''pyproject.toml'']]]
      else if source_tool = Some PIPENV then
        [new_step PACKAGE_MANAGER ''Convert Pipfile to pyproject.toml for uv''
           ''pipenv'' ''uv'' [path @ [''Pipfile''], path @ [''pyproject.toml'']]]
      else if source_tool = Some SETUPTOOLS then
        [new_step PACKAGE_MANAGER ''Convert setup.py/setup.cfg to pyproject.toml''
           ''setuptools'' ''uv''
           [path @ [''setup.py''], path @ [''setup.cfg''], path @ [''pyproject.toml'']]]
      else [])"

definition create_migration_plan ::
  "pylib \<Rightarrow> filesystem \<Rightarrow> path \<Rightarrow> string option \<Rightarrow> py_error + MigrationStep list" where
  "create_migration_plan lib fs path from_tool =
     ebind (case from_tool of
              None \<Rightarrow> detect_source_tool lib fs path
            | Some t \<Rightarrow> if t = [] then detect_source_tool lib fs path
                        else Inr (source_tool_of t)) (\<lambda>source_tool.
     ebind (detect_formatter lib fs path) (\<lambda>fmt.
     ebind (detect_import_sorter lib fs path) (\<lambda>srt.
     ebind (detect_linter lib fs path) (\<lambda>lnt.
     ebind (detect_type_checker lib fs path) (\<lambda>tc.
       Inr (package_manager_steps path source_tool @
            (if fst fmt = Some ''black'' then
               [new_step FORMATTER ''Migrate Black configuration to ruff format''
                  ''black'' ''ruff'' [path @ [''pyproject.toml'']]]
             else []) @
            (if fst srt = Some ''isort'' then
               [new_step LINTER ''Migrate isort configuration to ruff lint.isort''
                  ''isort'' ''ruff'' [path @ [''pyproject.toml''], path @ [''.isort.cfg'']]]
             else []) @
            (if fst lnt = Some ''flake8'' then
               [new_step LINTER ''Migrate flake8 configuration to ruff lint''
                  ''flake8'' ''ruff'' [path @ [''pyproject.toml''], path @ [''.flake8'']]]
             else []) @
            (if fst tc = Some ''mypy'' then
               [new_step TYPE_CHECKER ''Migrate mypy configuration to basedpyright''
                  ''mypy'' ''basedpyright'' [path @ [''pyproject.toml''], path @ [''mypy.ini'']]]
             else [])))))))"

subsection \<open>The upgrade\<close>

text \<open>
  The body of the \<open>try\<close> for one step: the file system and the document after it,
  and either the changes with which \<open>result.changes_made\<close> is extended or the
  exception that the \<open>except\<close> clause records. After a package manager migration the
  document is read again from the file.
\<close>

definition reread ::
  "pylib \<Rightarrow> path \<Rightarrow> toml_tab \<Rightarrow> filesystem \<times> (py_error + string list) \<Rightarrow>
   (filesystem \<times> toml_tab) \<times> (py_error + string list)" where
  "reread lib path doc r =
     (case r of
        (fs', Inl e) \<Rightarrow> ((fs', doc), Inl e)
      | (fs', Inr changes) \<Rightarrow>
          ((fs', doc_or (read_toml_doc lib fs' (path @ [''pyproject.toml''])) doc),
           Inr changes))"

definition execute_step ::
  "pylib \<Rightarrow> path \<Rightarrow> bool \<Rightarrow> MigrationStep \<Rightarrow> filesystem \<times> toml_tab \<Rightarrow>
   (filesystem \<times> toml_tab) \<times> (py_error + string list)" where
  "execute_step lib path dry_run step s =
     (let fs = fst s; doc = snd s in
      case migration_type step of
        PACKAGE_MANAGER \<Rightarrow>
          (if source step = ''poetry'' then
             reread lib path doc (migrate_poetry_to_uv lib fs path dry_run)
           else if source step = ''pip'' then
             reread lib path doc (migrate_requirements_to_uv lib fs path dry_run)
           else if source step = ''pipenv'' then
             reread lib path doc (migrate_pipenv_to_uv lib fs path dry_run)
           else if source step = ''setuptools'' then
             reread lib path doc
               (case migrate_setuptools_to_uv lib fs path dry_run of
                  (fs', changes) \<Rightarrow> (fs', Inr changes))
           else ((fs, doc), Inr [''Unknown source tool: '' @ source step]))
      | FORMATTER \<Rightarrow>
          (if source step = ''black'' then migrate_black_to_ruff lib fs path doc dry_run
           else ((fs, doc), Inr []))
      | LINTER \<Rightarrow>
          (if source step = ''isort'' then migrate_isort_to_ruff lib fs path doc dry_run
           else if source step = ''flake8'' then migrate_flake8_to_ruff lib fs path doc dry_run
           else ((fs, doc), Inr []))
      | TYPE_CHECKER \<Rightarrow>
          (if source step = ''mypy'' then migrate_mypy_to_basedpyright lib fs path doc dry_run
           else ((fs, doc), Inr []))
      | _ \<Rightarrow> ((fs, doc), Inr []))"

text \<open>The loop over the steps: an exception is recorded and the loop goes on.\<close>

fun execute_steps ::
  "pylib \<Rightarrow> path \<Rightarrow> bool \<Rightarrow> MigrationStep list \<Rightarrow>
   (filesystem \<times> toml_tab) \<times> UpgradeResult \<Rightarrow> (filesystem \<times> toml_tab) \<times> UpgradeResult" where
  "execute_steps lib path dry_run [] s = s"
| "execute_steps lib path dry_run (step # steps) s =
     (case execute_step lib path dry_run step (fst s) of
        (s', Inr changes) \<Rightarrow>
          execute_steps lib path dry_run steps
            (s', (snd s)\<lparr>changes_made := changes_made (snd s) @ changes\<rparr>)
      | (s', Inl e) \<Rightarrow>
          execute_steps lib path dry_run steps
            (s', (snd s)\<lparr>errors := errors (snd s) @
                   [''Error during '' @ description step @ '': '' @ exc_str lib e]\<rparr>))"

text \<open>
  \<open>upgrade_project\<close>. The file system is returned together with the result or with
  the exception that leaves the function: what was written before an exception stays.
\<close>

definition upgrade_project ::
  "pylib \<Rightarrow> filesystem \<Rightarrow> path \<Rightarrow> string option \<Rightarrow> bool \<Rightarrow> bool \<Rightarrow>
   filesystem \<times> (py_error + UpgradeResult)" where
  "upgrade_project lib fs path from_tool dry_run backup =
     (let result = \<lparr>success = False, project_path = path, changes_made = [],
                     backup_path = None, errors = [], migration_steps = []\<rparr>;
          pyproject_path = path @ [''pyproject.toml'']
      in
      if \<not> path_exists fs path then
        (fs, Inr (result\<lparr>errors := [''Path does not exist: '' @ path_str path]\<rparr>))
      else if \<not> is_dir fs path then
        (fs, Inr (result\<lparr>errors := [''Path is not a directory: '' @ path_str path]\<rparr>))
      else
        case (if backup \<and> \<not> dry_run then
                (case create_backup lib fs path of
                   (fs1, Inl e) \<Rightarrow> (fs1, Inl e)
                 | (fs1, Inr backup_dir) \<Rightarrow>
                     (fs1, Inr (result\<lparr>backup_path := Some backup_dir,
                                  changes_made := [''Created backup at '' @
                                                   path_str backup_dir]\<rparr>)))
              else (fs, Inr result)) of
          (fs1, Inl e) \<Rightarrow> (fs1, Inl e)
        | (fs1, Inr result1) \<Rightarrow>
            (case create_migration_plan lib fs1 path from_tool of
               Inl e \<Rightarrow> (fs1, Inl e)
             | Inr steps \<Rightarrow>
                 if steps = [] then
                   (fs1, Inr (result1\<lparr>migration_steps := steps,
                       changes_made := changes_made result1 @
                         [''No migrations needed - project may already use modern tooling''],
                       success := True\<rparr>))
                 else
                   (case execute_steps lib path dry_run steps
                           ((fs1, doc_or (read_toml_doc lib fs1 pyproject_path) []),
                            result1\<lparr>migration_steps := steps\<rparr>) of
                      ((fs2, doc), result2) \<Rightarrow>
                        if \<not> dry_run \<and> doc \<noteq> [] then
                          (case write_toml_doc lib fs2 pyproject_path doc of
                             Inl e \<Rightarrow> (fs2, Inl e)
                           | Inr fs3 \<Rightarrow>
                               (fs3, Inr (result2\<lparr>
                                  changes_made := changes_made result2 @
                                    [''Wrote updated pyproject.toml''],
                                  success := (errors result2 = [])\<rparr>)))
                        else (fs2, Inr (result2\<lparr>success := (errors result2 = [])\<rparr>)))))"

subsection \<open>A predicate on results\<close>

text \<open>Every recommendation of the result is of severity info or warning.\<close>

definition mild :: "AuditResult \<Rightarrow> bool" where
  "mild r = (\<forall>x\<in>set (recommendations r). severity x = INFO \<or> severity x = WARNING)"

subsection \<open>A predicate on statements\<close>


section \<open>Example inputs\<close>

text \<open>
  Concrete inputs on which the theorems below are instantiated. \<open>example_lib\<close> stands
  in for the libraries on the bytes of the example files: its loaders know the contents
  of these files only.
\<close>

definition example_root :: path where
  "example_root = [''home'', ''proj'']"

definition modern_pyproject :: toml_tab where
  "modern_pyproject =
     [(''project'', TTab [(''name'', TStr ''demo'')]),
      (''tool'', TTab [(''ruff'', TTab [(''line-length'', TInt 88)]),
                       (''basedpyright'', TTab [(''typeCheckingMode'', TStr ''standard'')])])]"

text \<open>A tree whose only entry is a directory with the name of a Python file.\<close>

definition dir_tree :: filesystem where
  "dir_tree =
     [([''home''], Dir),
      ([''home'', ''proj''], Dir),
      ([''home'', ''proj'', ''pkg.py''], Dir)]"

text \<open>A manifest whose top-level key \<open>tool\<close> is the string "ruff", and a tree with it.\<close>

definition string_tool_pyproject :: toml_tab where
  "string_tool_pyproject = [(''tool'', TStr ''ruff'')]"

definition string_tool_tree :: filesystem where
  "string_tool_tree =
     [([''home''], Dir),
      ([''home'', ''proj''], Dir),
      ([''home'', ''proj'', ''uv.lock''], File []),
      ([''home'', ''proj'', ''pyproject.toml''], File ''stringtool''),
      ([''home'', ''proj'', ''pyrightconfig.json''], File ''{}''),
      ([''home'', ''proj'', ''.pre-commit-config.yaml''], File ''repos: []'')]"

text \<open>A modern manifest that still has a \<open>[tool.black]\<close> section, and a tree with it.\<close>

definition black_pyproject :: toml_tab where
  "black_pyproject =
     [(''tool'', TTab [(''ruff'', TTab [(''lint'', TTab [(''select'', TArr [TStr ''E''])])]),
                       (''basedpyright'', TTab [(''typeCheckingMode'', TStr ''standard'')]),
                       (''black'', TTab [(''line-length'', TInt 100)])])]"

definition black_tree :: filesystem where
  "black_tree =
     [([''home''], Dir),
      ([''home'', ''proj''], Dir),
      ([''home'', ''proj'', ''uv.lock''], File []),
      ([''home'', ''proj'', ''pyproject.toml''], File ''black''),
      ([''home'', ''proj'', ''.pre-commit-config.yaml''], File ''repos: []'')]"

text \<open>
  Two Poetry manifests with a name, a version, a caret dependency and a dev-group
  dependency: in the first the caret dependency is \<open>requests\<close>, in the second it is
  \<open>python\<close>.
\<close>

definition poetry_pyproject :: toml_tab where
  "poetry_pyproject =
     [(''tool'', TTab [(''poetry'', TTab
        [(''name'', TStr ''demo''),
         (''version'', TStr ''0.1.0''),
         (''dependencies'', TTab [(''requests'', TStr ''^2.28'')]),
         (''group'', TTab [(''dev'', TTab
            [(''dependencies'', TTab [(''pytest'', TStr ''^7.0'')])])])])])]"

definition python_only_pyproject :: toml_tab where
  "python_only_pyproject =
     [(''tool'', TTab [(''poetry'', TTab
        [(''name'', TStr ''demo''),
         (''version'', TStr ''0.1.0''),
         (''dependencies'', TTab [(''python'', TStr ''^3.11'')]),
         (''group'', TTab [(''dev'', TTab
            [(''dependencies'', TTab [(''pytest'', TStr ''^7.0'')])])])])])]"

definition poetry_tree :: filesystem where
  "poetry_tree =
     [([''home''], Dir),
      ([''home'', ''proj''], Dir),
      ([''home'', ''proj'', ''pyproject.toml''], File ''poetry''),
      ([''home'', ''proj'', ''poetry.lock''], File [])]"

definition python_only_tree :: filesystem where
  "python_only_tree =
     [([''home''], Dir),
      ([''home'', ''proj''], Dir),
      ([''home'', ''proj'', ''pyproject.toml''], File ''python-only''),
      ([''home'', ''proj'', ''poetry.lock''], File [])]"

text \<open>A tree in which \<open>setup.py\<close> is a directory, beside a regular \<open>.flake8\<close>.\<close>

definition blocked_tree :: filesystem where
  "blocked_tree =
     [([''home''], Dir),
      ([''home'', ''proj''], Dir),
      ([''home'', ''proj'', ''setup.py''], Dir),
      ([''home'', ''proj'', ''.flake8''], File ''[flake8]'')]"

definition example_toml_load :: "string \<Rightarrow> toml_tab option" where
  "example_toml_load b =
     (if b = ''modern'' then Some modern_pyproject
      else if b = ''stringtool'' then Some string_tool_pyproject
      else if b = ''black'' then Some black_pyproject
      else if b = ''poetry'' then Some poetry_pyproject
      else if b = ''python-only'' then Some python_only_pyproject
      else None)"

definition example_lib :: pylib where
  "example_lib =
     \<lparr>tomllib_load = example_toml_load,
      tomlkit_load = example_toml_load,
      tomlkit_dumps = (\<lambda>d. ''toml''),
      configparser_read = (\<lambda>b. None),
      decode_utf8 = Some,
      ast_function_defs =
        (\<lambda>src. if src = ''def f(x): return x''
               then Inr [\<lparr>returns = False, arg_annotations = [False]\<rparr>]
               else if src = ''def broken('' then Inl SyntaxError else Inr []),
      fmt_float0 = (\<lambda>x. ''0''),
      exc_str = (\<lambda>e. ''error''),
      item_str = (\<lambda>v. ''value''),
      timestamp = ''20250101_120000''\<rparr>"

definition modern_tree :: filesystem where
  "modern_tree =
     [([''home''], Dir),
      ([''home'', ''proj''], Dir),
      ([''home'', ''proj'', ''uv.lock''], File []),
      ([''home'', ''proj'', ''pyproject.toml''], File ''modern''),
      ([''home'', ''proj'', ''.pre-commit-config.yaml''], File ''repos: []''),
      ([''home'', ''proj'', ''app.py''], File ''def f(x): return x'')]"

definition legacy_tree :: filesystem where
  "legacy_tree =
     [([''home''], Dir),
      ([''home'', ''proj''], Dir),
      ([''home'', ''proj'', ''requirements.txt''], File ''requests>=2.28''),
      ([''home'', ''proj'', ''.flake8''], File ''[flake8]''),
      ([''home'', ''proj'', ''mypy.ini''], File ''[mypy]''),
      ([''home'', ''proj'', ''app.py''], File ''def f(x): return x'')]"

definition script_tree :: filesystem where
  "script_tree =
     [([''home''], Dir),
      ([''home'', ''proj''], Dir),
      ([''home'', ''proj'', ''run.py''], File ''print(1)''),
      ([''home'', ''proj'', ''bad.py''], File ''def broken(''),
      ([''home'', ''proj'', ''venv''], Dir),
      ([''home'', ''proj'', ''venv'', ''lib.py''], File ''def f(x): return x'')]"

section \<open>Theorems\<close>

subsection \<open>Project names\<close>

lemmas name_eval_defs =
  validate_project_name_def py_strip_def py_lower_def lower_char_def is_space_def
  name_pattern_matches_def is_lower_letter_def is_name_char_def reserved_def

text \<open>Every keyword written in lower case is refused by the validator.\<close>

lemma lower_case_keywords_rejected:
  "list_all (\<lambda>k. isl (validate_project_name k))
     (filter (\<lambda>k. k \<notin> set [''False'', ''None'', ''True'']) kwlist)"
  by (simp add: kwlist_def name_eval_defs)

text \<open>
  C6. Constructing a \<open>ProjectConfig\<close> whose name is a reserved keyword must fail. The
  validator lower-cases the name before it looks it up in \<open>reserved\<close>, where the three
  capitalised keywords are stored capitalised: the name \<open>True\<close> is accepted and stored
  as \<open>true\<close>.
\<close>

theorem C6_capitalised_keyword_accepted:
  "new_ProjectConfig ''True'' LIBRARY False False =
     Inr \<lparr>name = ''true'', project_type = LIBRARY, docker = False, docs = False\<rparr>"
  by (simp add: new_ProjectConfig_def ebind_def validate_config_consistency_def name_eval_defs)

subsection \<open>Exceptions in sequence\<close>

lemma ebind_Inr: "ebind m f = Inr y \<longleftrightarrow> (\<exists>v. m = Inr v \<and> f v = Inr y)"
  by (cases m) (simp_all add: ebind_def)

lemma ebind_simps [simp]: "ebind (Inr v) f = f v" "ebind (Inl e) f = Inl e"
  by (simp_all add: ebind_def)

subsection \<open>The score\<close>

lemma foldl_deduct:
  "foldl deduct s xs =
     s - 20 * int (length (filter (\<lambda>x. severity x = CRITICAL) xs))
       - 10 * int (length (filter (\<lambda>x. severity x = ERROR) xs))
       - 5 * int (length (filter (\<lambda>x. severity x = WARNING) xs))
       - int (length (filter (\<lambda>x. severity x = INFO) xs))"
proof (induction xs arbitrary: s)
  case Nil
  show ?case by simp
next
  case (Cons x xs)
  have d: "deduct s x =
      (if severity x = CRITICAL then s - 20 else if severity x = ERROR then s - 10
       else if severity x = WARNING then s - 5 else s - 1)"
    by (cases "severity x") (simp_all add: deduct_def)
  have "foldl deduct s (x # xs) = foldl deduct (deduct s x) xs" by simp
  also note Cons.IH
  finally show ?case unfolding d by (cases "severity x") simp_all
qed

lemma count_severity:
  "length (filter (\<lambda>x. severity x = sv) xs) = count (mset (map severity xs)) sv"
  by (induction xs) auto

lemma calculate_score_formula:
  "calculate_score r =
     max 0 (min 100 (100 - 20 * int (critical_count r) - 10 * int (error_count r)
                         - 5 * int (warning_count r) - int (info_count r)))"
  by (simp add: calculate_score_def foldl_deduct critical_count_def error_count_def
        warning_count_def info_count_def)

lemma calculate_score_bounds: "0 \<le> calculate_score r \<and> calculate_score r \<le> 100"
  by (simp add: calculate_score_def)

lemma calculate_score_mset:
  assumes "mset (map severity (recommendations r)) = mset (map severity (recommendations r'))"
  shows "calculate_score r = calculate_score r'"
  using assms by (simp add: calculate_score_def foldl_deduct count_severity)

lemma calculate_score_score_update [simp]:
  "calculate_score (r\<lparr>score := x\<rparr>) = calculate_score r"
  by (simp add: calculate_score_def)

lemma audit_findings_score:
  "score (audit_findings lib path pkg lnt fmt srt tc pre ci cov ty tot)
     = calculate_score (audit_findings lib path pkg lnt fmt srt tc pre ci cov ty tot)"
  by (simp add: audit_findings_def Let_def)

text \<open>What a successful audit has computed.\<close>

lemma audit_project_Inr:
  assumes "audit_project lib fs path = Inr res"
  shows "\<exists>pkg lnt fmt srt tc cov.
           detect_package_manager lib fs path = Inr pkg \<and>
           detect_linter lib fs path = Inr lnt \<and>
           detect_formatter lib fs path = Inr fmt \<and>
           detect_import_sorter lib fs path = Inr srt \<and>
           detect_type_checker lib fs path = Inr tc \<and>
           analyze_type_coverage lib fs path = Inr cov \<and>
           is_dir fs path \<and>
           res = audit_findings lib path (fst pkg) (fst lnt) (fst fmt) (fst srt) (fst tc)
                   (detect_pre_commit fs path) (fst (detect_ci fs path))
                   (fst cov) (fst (snd cov)) (snd (snd cov))"
  using assms unfolding audit_project_def
  by (simp add: ebind_Inr split: if_splits) blast

lemma audit_project_findings:
  assumes "audit_project lib fs path = Inr res"
  shows "\<exists>pkg lnt fmt srt tc pre ci cov ty tot.
           res = audit_findings lib path pkg lnt fmt srt tc pre ci cov ty tot"
  using audit_project_Inr[OF assms] by blast

subsection \<open>The example trees, audited\<close>

lemmas example_defs =
  example_root_def example_lib_def example_toml_load_def modern_pyproject_def
  modern_tree_def legacy_tree_def script_tree_def dir_tree_def string_tool_pyproject_def
  string_tool_tree_def black_pyproject_def black_tree_def poetry_pyproject_def
  python_only_pyproject_def poetry_tree_def python_only_tree_def blocked_tree_def

lemmas fs_defs =
  path_exists_def is_dir_def all_paths_def glob_dir_def glob_rec_def
  read_toml_def read_ini_def has_section_def tool_has_def tool_item_def
  startswith_def endswith_def

lemma modern_tree_detected:
  "detect_package_manager example_lib modern_tree example_root
     = Inr (Some ''uv'', [(''lock_file'', ''uv.lock'')])"
  "detect_linter example_lib modern_tree example_root
     = Inr (Some ''ruff'', [(''config'', ''pyproject.toml'')])"
  "detect_formatter example_lib modern_tree example_root
     = Inr (Some ''ruff'', [(''config'', ''pyproject.toml'')])"
  "detect_import_sorter example_lib modern_tree example_root = Inr (None, [])"
  "detect_type_checker example_lib modern_tree example_root
     = Inr (Some ''basedpyright'', [(''config'', ''pyproject.toml'')])"
  "detect_pre_commit modern_tree example_root"
  "detect_ci modern_tree example_root = (None, [])"
  "is_dir modern_tree example_root"
  by (simp_all add: detect_package_manager_def detect_linter_def detect_formatter_def
        detect_import_sorter_def ruff_sorts_imports_def detect_type_checker_def
        detect_pre_commit_def detect_ci_def example_defs fs_defs)

lemma modern_tree_coverage:
  "analyze_type_coverage example_lib modern_tree example_root = Inr (0, 0, 1)"
  by (simp add: analyze_type_coverage_def example_defs fs_defs exclude_patterns_def
        has_annotation_def upt_rec)

lemma modern_tree_audit:
  "audit_project example_lib modern_tree example_root =
     Inr (audit_findings example_lib example_root (Some ''uv'') (Some ''ruff'') (Some ''ruff'')
            None (Some ''basedpyright'') True None 0 0 1)"
  using modern_tree_detected(6,8)
  by (simp add: audit_project_def modern_tree_detected(1-5,7) modern_tree_coverage
        is_dir_def path_exists_def)

lemma legacy_tree_detected:
  "detect_package_manager example_lib legacy_tree example_root
     = Inr (Some ''pip'', [(''requirements'', ''requirements.txt'')])"
  "detect_linter example_lib legacy_tree example_root
     = Inr (Some ''flake8'', [(''config'', ''.flake8'')])"
  "detect_formatter example_lib legacy_tree example_root = Inr (None, [])"
  "detect_import_sorter example_lib legacy_tree example_root = Inr (None, [])"
  "detect_type_checker example_lib legacy_tree example_root
     = Inr (Some ''mypy'', [(''config'', ''mypy.ini'')])"
  "\<not> detect_pre_commit legacy_tree example_root"
  "detect_ci legacy_tree example_root = (None, [])"
  "is_dir legacy_tree example_root"
  by (simp_all add: detect_package_manager_def detect_linter_def detect_formatter_def
        detect_import_sorter_def ruff_sorts_imports_def detect_type_checker_def
        detect_pre_commit_def detect_ci_def example_defs fs_defs is_requirements_glob_def)

lemma legacy_tree_coverage:
  "analyze_type_coverage example_lib legacy_tree example_root = Inr (0, 0, 1)"
  by (simp add: analyze_type_coverage_def example_defs fs_defs exclude_patterns_def
        has_annotation_def upt_rec)

lemma legacy_tree_audit:
  "audit_project example_lib legacy_tree example_root =
     Inr (audit_findings example_lib example_root (Some ''pip'') (Some ''flake8'') None
            None (Some ''mypy'') False None 0 0 1)"
  using legacy_tree_detected(6,8)
  by (simp add: audit_project_def legacy_tree_detected(1-5,7) legacy_tree_coverage
        is_dir_def path_exists_def)

subsection \<open>C3: the score\<close>

text \<open>
  C3. The score of a result is 100 minus 20 for each critical, 10 for each error, 5 for
  each warning and 1 for each info recommendation, clamped to the interval from 0 to 100;
  so the score of every result that \<open>audit_project\<close> returns lies between 0 and 100; and
  two results whose recommendations have the same multiset of severities have the same
  score, in whatever order the recommendations were generated.
\<close>

theorem C3_score:
  "calculate_score r =
     max 0 (min 100 (100 - 20 * int (critical_count r) - 10 * int (error_count r)
                         - 5 * int (warning_count r) - int (info_count r)))
   \<and> (\<forall>lib fs path res. audit_project lib fs path = Inr res \<longrightarrow>
          0 \<le> score res \<and> score res \<le> 100)
   \<and> (\<forall>r'. mset (map severity (recommendations r)) = mset (map severity (recommendations r'))
          \<longrightarrow> calculate_score r = calculate_score r')"
proof (intro conjI allI impI)
  show "calculate_score r =
     max 0 (min 100 (100 - 20 * int (critical_count r) - 10 * int (error_count r)
                         - 5 * int (warning_count r) - int (info_count r)))"
    by (rule calculate_score_formula)
next
  fix lib fs path res
  assume a: "audit_project lib fs path = Inr res"
  from audit_project_findings[OF a] obtain pkg lnt fmt srt tc pre ci cov ty tot where
    res: "res = audit_findings lib path pkg lnt fmt srt tc pre ci cov ty tot"
    by blast
  have sc: "score res = calculate_score res" unfolding res by (rule audit_findings_score)
  show "0 \<le> score res" "score res \<le> 100"
    using calculate_score_bounds[of res] sc by simp_all
next
  fix r' :: AuditResult
  assume "mset (map severity (recommendations r)) = mset (map severity (recommendations r'))"
  then show "calculate_score r = calculate_score r'" by (rule calculate_score_mset)
qed

text \<open>
  The witness: two results with a warning and an info recommendation in opposite orders
  both score 94, and the audit of the modern example tree scores within the bounds.
\<close>

theorem C3_score_witness:
  "mset (map severity [tooling_rec ''a'' WARNING None, quality_rec ''b'' INFO])
     = mset (map severity [quality_rec ''b'' INFO, tooling_rec ''a'' WARNING None])
   \<and> calculate_score \<lparr>AuditResult.project_path = example_root,
        recommendations = [tooling_rec ''a'' WARNING None, quality_rec ''b'' INFO],
        score = 100, tooling_detected = []\<rparr>
     = calculate_score \<lparr>AuditResult.project_path = example_root,
        recommendations = [quality_rec ''b'' INFO, tooling_rec ''a'' WARNING None],
        score = 100, tooling_detected = []\<rparr>
   \<and> calculate_score \<lparr>AuditResult.project_path = example_root,
        recommendations = [tooling_rec ''a'' WARNING None, quality_rec ''b'' INFO],
        score = 100, tooling_detected = []\<rparr> = 94
   \<and> audit_project example_lib modern_tree example_root =
        Inr (audit_findings example_lib example_root (Some ''uv'') (Some ''ruff'')
               (Some ''ruff'') None (Some ''basedpyright'') True None 0 0 1)
   \<and> 0 \<le> score (audit_findings example_lib example_root (Some ''uv'') (Some ''ruff'')
               (Some ''ruff'') None (Some ''basedpyright'') True None 0 0 1)
   \<and> score (audit_findings example_lib example_root (Some ''uv'') (Some ''ruff'')
               (Some ''ruff'') None (Some ''basedpyright'') True None 0 0 1) \<le> 100"
proof -
  let ?r = "\<lparr>AuditResult.project_path = example_root,
        recommendations = [tooling_rec ''a'' WARNING None, quality_rec ''b'' INFO],
        score = 100, tooling_detected = []\<rparr>"
  let ?r' = "\<lparr>AuditResult.project_path = example_root,
        recommendations = [quality_rec ''b'' INFO, tooling_rec ''a'' WARNING None],
        score = 100, tooling_detected = []\<rparr>"
  have m: "mset (map severity (recommendations ?r)) = mset (map severity (recommendations ?r'))"
    by (simp add: tooling_rec_def quality_rec_def)
  have f: "calculate_score ?r = 94"
    using C3_score[of ?r]
    by (simp add: critical_count_def error_count_def warning_count_def info_count_def
          tooling_rec_def quality_rec_def)
  show ?thesis
    using C3_score[of ?r] m f modern_tree_audit by simp
qed

subsection \<open>C9: severities of the recommendations\<close>

lemma mild_append_tooling:
  "mild r \<Longrightarrow> sev = INFO \<or> sev = WARNING \<Longrightarrow> mild (append_rec r (tooling_rec m sev a))"
  by (auto simp: mild_def append_rec_def tooling_rec_def)

lemma mild_append_quality:
  "mild r \<Longrightarrow> sev = INFO \<or> sev = WARNING \<Longrightarrow> mild (append_rec r (quality_rec m sev))"
  by (auto simp: mild_def append_rec_def quality_rec_def)

lemma mild_blocks:
  "mild r \<Longrightarrow> mild (package_manager_recommendations r pkg)"
  "mild r \<Longrightarrow> mild (linter_recommendations r lnt fmt)"
  "mild r \<Longrightarrow> mild (formatter_recommendations r fmt)"
  "mild r \<Longrightarrow> mild (import_sorter_recommendations r srt)"
  "mild r \<Longrightarrow> mild (type_checker_recommendations r tc)"
  "mild r \<Longrightarrow> mild (pre_commit_recommendations r pre)"
  "mild r \<Longrightarrow> mild (ci_recommendations r ci)"
  by (simp_all add: package_manager_recommendations_def linter_recommendations_def
        formatter_recommendations_def import_sorter_recommendations_def
        type_checker_recommendations_def pre_commit_recommendations_def
        ci_recommendations_def mild_append_tooling)

lemma mild_tooling:
  "mild r \<Longrightarrow> mild (generate_tooling_recommendations r pkg lnt fmt srt tc pre ci)"
  by (simp add: generate_tooling_recommendations_def mild_blocks)

lemma mild_quality:
  "mild r \<Longrightarrow> mild (generate_code_quality_recommendations lib r cov ty tot)"
  by (simp add: generate_code_quality_recommendations_def mild_append_quality)

lemma mild_findings:
  "mild (audit_findings lib path pkg lnt fmt srt tc pre ci cov ty tot)"
proof -
  have "mild \<lparr>AuditResult.project_path = path, recommendations = [], score = s, tooling_detected = d\<rparr>"
    for s d by (simp add: mild_def)
  then show ?thesis
    by (simp add: audit_findings_def Let_def mild_def[of "_\<lparr>score := _\<rparr>"]
          mild_def[of "_\<lparr>tooling_detected := _\<rparr>"])
       (metis mild_def mild_quality mild_tooling)
qed

lemma mild_counts:
  assumes "mild r"
  shows "critical_count r = 0" "error_count r = 0"
  using assms by (auto simp: mild_def critical_count_def error_count_def filter_empty_conv)

text \<open>
  C9. Every recommendation in a result of \<open>audit_project\<close> has severity info or warning;
  the result has no critical and no error recommendation, and its score is 100 minus 5
  for each warning and 1 for each info recommendation, not below 0.
\<close>

theorem C9_only_info_and_warning:
  assumes "audit_project lib fs path = Inr res"
  shows "(\<forall>r\<in>set (recommendations res). severity r = INFO \<or> severity r = WARNING)
         \<and> critical_count res = 0 \<and> error_count res = 0
         \<and> score res = max 0 (100 - 5 * int (warning_count res) - int (info_count res))"
proof -
  from audit_project_findings[OF assms] obtain pkg lnt fmt srt tc pre ci cov ty tot where
    res: "res = audit_findings lib path pkg lnt fmt srt tc pre ci cov ty tot"
    by blast
  have m: "mild res" unfolding res by (rule mild_findings)
  have sc: "score res = calculate_score res" unfolding res by (rule audit_findings_score)
  show ?thesis
    using m mild_counts[OF m] sc calculate_score_formula[of res]
    by (simp add: mild_def)
qed

text \<open>The witness: the audit of the legacy example tree (pip, flake8, mypy).\<close>

theorem C9_only_info_and_warning_witness:
  "audit_project example_lib legacy_tree example_root =
     Inr (audit_findings example_lib example_root (Some ''pip'') (Some ''flake8'') None
            None (Some ''mypy'') False None 0 0 1)
   \<and> map severity (recommendations (audit_findings example_lib example_root (Some ''pip'')
            (Some ''flake8'') None None (Some ''mypy'') False None 0 0 1))
       = [INFO, INFO, INFO, INFO, INFO, WARNING]
   \<and> critical_count (audit_findings example_lib example_root (Some ''pip'')
            (Some ''flake8'') None None (Some ''mypy'') False None 0 0 1) = 0
   \<and> error_count (audit_findings example_lib example_root (Some ''pip'')
            (Some ''flake8'') None None (Some ''mypy'') False None 0 0 1) = 0"
proof -
  have "map severity (recommendations (audit_findings example_lib example_root (Some ''pip'')
            (Some ''flake8'') None None (Some ''mypy'') False None 0 0 1))
       = [INFO, INFO, INFO, INFO, INFO, WARNING]"
    by (simp add: audit_findings_def Let_def generate_tooling_recommendations_def
          package_manager_recommendations_def linter_recommendations_def
          formatter_recommendations_def import_sorter_recommendations_def
          type_checker_recommendations_def pre_commit_recommendations_def
          ci_recommendations_def generate_code_quality_recommendations_def
          append_rec_def tooling_rec_def quality_rec_def)
  then show ?thesis
    using C9_only_info_and_warning[OF legacy_tree_audit] legacy_tree_audit by simp
qed

subsection \<open>C8: coverage without functions\<close>

lemma count_functions_no_defs:
  assumes "\<forall>p\<in>set ps. \<not> list_ex (\<lambda>part. part \<in> set exclude_patterns) p \<longrightarrow>
             (\<exists>b. map_of fs p = Some (File b) \<and>
                  (decode_utf8 lib b = None \<or>
                   (\<exists>src. decode_utf8 lib b = Some src \<and>
                      (ast_function_defs lib src = Inl SyntaxError \<or>
                       ast_function_defs lib src = Inr []))))"
  shows "count_functions lib fs ps t ty = Inr (t, ty)"
  using assms
proof (induction ps)
  case Nil
  show ?case by simp
next
  case (Cons p ps)
  then show ?case by (auto split: option.splits sum.splits)
qed

text \<open>
  C8, as it is stated, fails: a directory whose name ends in \<open>.py\<close> is among the paths
  that the analysis opens, and opening it raises. The tree below has no function
  definition at all, and the analysis does not return.
\<close>

theorem C8_directory_counterexample:
  "glob_rec dir_tree example_root (\<lambda>n. endswith n ''.py'') = [[''home'', ''proj'', ''pkg.py'']]
   \<and> analyze_type_coverage example_lib dir_tree example_root = Inl IsADirectoryError"
  by (simp add: analyze_type_coverage_def example_defs fs_defs exclude_patterns_def upt_rec)

text \<open>
  C8, amended. When every path below the directory that matches \<open>**/*.py\<close> and lies in
  no excluded directory is a regular file that does not decode as UTF-8, or has a
  syntax error, or parses without any function definition, \<open>analyze_type_coverage\<close>
  returns (100.0, 0, 0).
\<close>

theorem C8_vacuous_coverage:
  assumes "\<forall>p\<in>set (glob_rec fs path (\<lambda>n. endswith n ''.py'')).
             \<not> list_ex (\<lambda>part. part \<in> set exclude_patterns) p \<longrightarrow>
             (\<exists>b. map_of fs p = Some (File b) \<and>
                  (decode_utf8 lib b = None \<or>
                   (\<exists>src. decode_utf8 lib b = Some src \<and>
                      (ast_function_defs lib src = Inl SyntaxError \<or>
                       ast_function_defs lib src = Inr []))))"
  shows "analyze_type_coverage lib fs path = Inr (100, 0, 0)"
  by (simp add: analyze_type_coverage_def count_functions_no_defs[OF assms])

text \<open>
  The witness: a tree with a script without functions, a file with a syntax error, and
  a function in an excluded directory.
\<close>

lemma script_tree_files:
  "\<forall>p\<in>set (glob_rec script_tree example_root (\<lambda>n. endswith n ''.py'')).
     \<not> list_ex (\<lambda>part. part \<in> set exclude_patterns) p \<longrightarrow>
     (\<exists>b. map_of script_tree p = Some (File b) \<and>
          (decode_utf8 example_lib b = None \<or>
           (\<exists>src. decode_utf8 example_lib b = Some src \<and>
              (ast_function_defs example_lib src = Inl SyntaxError \<or>
               ast_function_defs example_lib src = Inr []))))"
  by (simp add: example_defs fs_defs exclude_patterns_def upt_rec)

theorem C8_vacuous_coverage_witness:
  "glob_rec script_tree example_root (\<lambda>n. endswith n ''.py'')
     = [[''home'', ''proj'', ''run.py''], [''home'', ''proj'', ''bad.py''],
        [''home'', ''proj'', ''venv'', ''lib.py'']]
   \<and> analyze_type_coverage example_lib script_tree example_root = Inr (100, 0, 0)"
  using C8_vacuous_coverage[OF script_tree_files]
  by (simp add: example_defs fs_defs upt_rec)

subsection \<open>C2: modern tooling\<close>

lemma findings_modern:
  assumes "tc = Some ''basedpyright'' \<or> tc = Some ''pyright''"
  shows "recommendations (audit_findings lib path (Some ''uv'') (Some ''ruff'') fmt srt tc True
            ci cov ty tot) = []"
    and "map_of (tooling_detected (audit_findings lib path (Some ''uv'') (Some ''ruff'') fmt srt
            tc True ci cov ty tot)) ''status'' = Some ''modern''"
    and "score (audit_findings lib path (Some ''uv'') (Some ''ruff'') fmt srt tc True
            ci cov ty tot) = 100"
  using assms by (auto simp: audit_findings_def Let_def calculate_score_def update_conv')

text \<open>
  C2, as it is stated, fails: the four detectors of the claim can return the four
  values while another analysis of the audit raises. In the tree below the manifest
  has the string "ruff" under the key \<open>tool\<close>; the linter test \<open>"ruff" in tool\<close> holds
  of the string, and \<open>detect_formatter\<close> then indexes the string with a key.
\<close>

theorem C2_string_tool_counterexample:
  "detect_package_manager example_lib string_tool_tree example_root
     = Inr (Some ''uv'', [(''lock_file'', ''uv.lock'')])
   \<and> detect_linter example_lib string_tool_tree example_root
     = Inr (Some ''ruff'', [(''config'', ''pyproject.toml'')])
   \<and> detect_type_checker example_lib string_tool_tree example_root
     = Inr (Some ''pyright'', [(''config'', ''pyrightconfig.json'')])
   \<and> detect_pre_commit string_tool_tree example_root
   \<and> audit_project example_lib string_tool_tree example_root = Inl TypeError"
  by (simp add: audit_project_def detect_package_manager_def detect_linter_def
        detect_formatter_def detect_type_checker_def detect_pre_commit_def
        is_substring_def example_defs fs_defs upt_rec)

text \<open>
  C2, amended. On a project directory where \<open>detect_package_manager\<close> returns uv,
  \<open>detect_linter\<close> returns ruff, \<open>detect_type_checker\<close> returns basedpyright or pyright
  and \<open>detect_pre_commit\<close> returns true, and where \<open>detect_formatter\<close>,
  \<open>detect_import_sorter\<close> and \<open>analyze_type_coverage\<close> return rather than raise,
  \<open>audit_project\<close> returns a result without recommendations, with status "modern"
  among the detected tooling and with score 100, whatever the type coverage is.
\<close>

theorem C2_modern_short_circuit:
  assumes "is_dir fs path"
    and "detect_package_manager lib fs path = Inr (Some ''uv'', pkg_info)"
    and "detect_linter lib fs path = Inr (Some ''ruff'', linter_info)"
    and "detect_type_checker lib fs path = Inr (tc, tc_info)"
    and "tc = Some ''basedpyright'' \<or> tc = Some ''pyright''"
    and "detect_pre_commit fs path"
    and "detect_formatter lib fs path = Inr fmt"
    and "detect_import_sorter lib fs path = Inr srt"
    and "analyze_type_coverage lib fs path = Inr cov"
  shows "\<exists>res. audit_project lib fs path = Inr res \<and> recommendations res = []
           \<and> map_of (tooling_detected res) ''status'' = Some ''modern'' \<and> score res = 100"
  using assms findings_modern[of tc]
  by (simp add: audit_project_def is_dir_def path_exists_def)

text \<open>
  The witness: the modern example tree, whose only function has no annotation (coverage
  0 percent).
\<close>

theorem C2_modern_short_circuit_witness:
  "is_dir modern_tree example_root
   \<and> detect_package_manager example_lib modern_tree example_root
       = Inr (Some ''uv'', [(''lock_file'', ''uv.lock'')])
   \<and> detect_linter example_lib modern_tree example_root
       = Inr (Some ''ruff'', [(''config'', ''pyproject.toml'')])
   \<and> detect_type_checker example_lib modern_tree example_root
       = Inr (Some ''basedpyright'', [(''config'', ''pyproject.toml'')])
   \<and> detect_pre_commit modern_tree example_root
   \<and> detect_formatter example_lib modern_tree example_root
       = Inr (Some ''ruff'', [(''config'', ''pyproject.toml'')])
   \<and> detect_import_sorter example_lib modern_tree example_root = Inr (None, [])
   \<and> analyze_type_coverage example_lib modern_tree example_root = Inr (0, 0, 1)
   \<and> (\<exists>res. audit_project example_lib modern_tree example_root = Inr res
          \<and> recommendations res = []
          \<and> map_of (tooling_detected res) ''status'' = Some ''modern'' \<and> score res = 100)"
  using C2_modern_short_circuit[OF modern_tree_detected(8) modern_tree_detected(1)
          modern_tree_detected(2) modern_tree_detected(5) _ modern_tree_detected(6)
          modern_tree_detected(3) modern_tree_detected(4) modern_tree_coverage]
        modern_tree_detected modern_tree_coverage
  by simp

subsection \<open>C4: a dry run changes nothing\<close>

lemma poetry_dry: "fst (migrate_poetry_to_uv lib fs path True) = fs"
  by (simp add: migrate_poetry_to_uv_def Let_def
        split: option.splits sum.splits bool.splits prod.splits)

lemma requirements_dry: "fst (migrate_requirements_to_uv lib fs path True) = fs"
  by (simp add: migrate_requirements_to_uv_def Let_def
        split: option.splits sum.splits prod.splits)

lemma pipenv_dry: "fst (migrate_pipenv_to_uv lib fs path True) = fs"
  by (simp add: migrate_pipenv_to_uv_def Let_def
        split: option.splits sum.splits prod.splits node.splits)

lemma setuptools_dry: "fst (migrate_setuptools_to_uv lib fs path True) = fs"
  by (simp add: migrate_setuptools_to_uv_def Let_def
        split: option.splits sum.splits prod.splits)

lemma remove_files_dry: "remove_files fs path True files changes = (fs, Inr changes)"
  by (induction files arbitrary: changes) auto

lemma migrate_then_remove_dry:
  "fst (fst (migrate_then_remove stmts files fs path doc True)) = fs"
  by (simp add: migrate_then_remove_def remove_files_dry split: prod.splits sum.splits)

lemma reread_fst: "fst (fst (reread lib path doc r)) = fst r"
  by (simp add: reread_def split: prod.splits sum.splits)

lemma execute_step_dry: "fst (fst (execute_step lib path True step s)) = fst s"
proof (cases "migration_type step")
  case PACKAGE_MANAGER
  have "fst (case migrate_setuptools_to_uv lib (fst s) path True of
               (fs', changes) \<Rightarrow> (fs', Inr changes :: py_error + string list)) = fst s"
    using setuptools_dry[of lib "fst s" path]
    by (cases "migrate_setuptools_to_uv lib (fst s) path True") simp
  then show ?thesis
    using PACKAGE_MANAGER
    by (simp add: execute_step_def Let_def reread_fst poetry_dry requirements_dry pipenv_dry)
qed (simp_all add: execute_step_def Let_def migrate_black_to_ruff_def
       migrate_isort_to_ruff_def migrate_flake8_to_ruff_def
       migrate_mypy_to_basedpyright_def migrate_then_remove_dry)

lemma execute_steps_dry:
  "fst (fst (execute_steps lib path True steps s)) = fst (fst s)"
proof (induction steps arbitrary: s)
  case Nil
  show ?case by simp
next
  case (Cons step steps)
  show ?case
    using execute_step_dry[of lib path step "fst s"]
    by (auto simp: Cons.IH split: prod.splits sum.splits)
qed

text \<open>
  C4. With \<open>dry_run=true\<close> the file system after \<open>upgrade_project\<close> is the file system
  before it, whatever the tree, the source tool and the backup flag are, and whether
  the call returns or raises: no file has changed or disappeared, and no backup
  directory has been created.
\<close>

theorem C4_dry_run_frame:
  "fst (upgrade_project lib fs path from_tool True backup) = fs"
proof -
  have steps: "a = fs"
    if "execute_steps lib path True steps ((fs, d), r) = ((a, b), c)" for steps d r a b c
    using execute_steps_dry[of lib path steps "((fs, d), r)"] that by simp
  show ?thesis
    by (auto simp: upgrade_project_def Let_def split: sum.splits prod.splits dest: steps)
qed

subsection \<open>C1: an invalid root path\<close>

text \<open>
  C1, as it is stated, fails for \<open>upgrade_project\<close>: on a path that does not exist it
  returns a result, with \<open>success\<close> false and the error in \<open>errors\<close>; it does not raise.
\<close>

theorem C1_upgrade_returns_counterexample:
  "\<not> path_exists modern_tree [''nowhere'']
   \<and> upgrade_project example_lib modern_tree [''nowhere''] None False True =
       (modern_tree,
        Inr \<lparr>success = False, project_path = [''nowhere''], changes_made = [],
             backup_path = None, errors = [''Path does not exist: /nowhere''],
             migration_steps = []\<rparr>)"
  by (simp add: upgrade_project_def path_exists_def path_str_def modern_tree_def)

text \<open>
  C1, amended. On a root path that does not exist or is not a directory,
  \<open>audit_project\<close> raises (FileNotFoundError or NotADirectoryError), while
  \<open>upgrade_project\<close> returns a result whose \<open>success\<close> is false and whose only error
  names the path; it leaves the file system as it was, makes no backup and plans no
  migration.
\<close>

theorem C1_invalid_root:
  assumes "\<not> is_dir fs path"
  shows "audit_project lib fs path =
           Inl (if path_exists fs path
                then NotADirectoryError (''Path is not a directory: '' @ path_str path)
                else FileNotFoundError (''Path does not exist: '' @ path_str path))
         \<and> upgrade_project lib fs path from_tool dry_run backup =
           (fs, Inr \<lparr>success = False, project_path = path, changes_made = [],
                     backup_path = None,
                     errors = [if path_exists fs path
                               then ''Path is not a directory: '' @ path_str path
                               else ''Path does not exist: '' @ path_str path],
                     migration_steps = []\<rparr>)"
  using assms by (simp add: audit_project_def upgrade_project_def)

text \<open>The witness: a path that is missing, and a path that is a regular file.\<close>

theorem C1_invalid_root_witness:
  "audit_project example_lib modern_tree [''nowhere'']
     = Inl (FileNotFoundError ''Path does not exist: /nowhere'')
   \<and> audit_project example_lib modern_tree [''home'', ''proj'', ''uv.lock'']
     = Inl (NotADirectoryError ''Path is not a directory: /home/proj/uv.lock'')
   \<and> upgrade_project example_lib modern_tree [''home'', ''proj'', ''uv.lock''] None False True
     = (modern_tree,
        Inr \<lparr>success = False, project_path = [''home'', ''proj'', ''uv.lock''],
             changes_made = [], backup_path = None,
             errors = [''Path is not a directory: /home/proj/uv.lock''],
             migration_steps = []\<rparr>)"
proof -
  have 1: "\<not> is_dir modern_tree [''nowhere'']"
    and 2: "\<not> is_dir modern_tree [''home'', ''proj'', ''uv.lock'']"
    by (simp_all add: is_dir_def modern_tree_def)
  show ?thesis
    using C1_invalid_root[OF 1, of example_lib None False True]
          C1_invalid_root[OF 2, of example_lib None False True]
    by (simp add: path_exists_def path_str_def modern_tree_def)
qed

subsection \<open>C7: the plan of a modern project\<close>

lemma uv_lock_package_manager:
  "path_exists fs (path @ [''uv.lock'']) \<Longrightarrow>
     detect_package_manager lib fs path = Inr (Some ''uv'', [(''lock_file'', ''uv.lock'')])"
  by (simp add: detect_package_manager_def)

lemma tool_key_type_checker:
  assumes "read_toml lib fs (path @ [''pyproject.toml'']) = Some doc"
    and "map_of doc ''tool'' = Some (TTab tool)" and "map_of tool ''basedpyright'' = Some r"
  shows "detect_type_checker lib fs path
           = Inr (Some ''basedpyright'', [(''config'', ''pyproject.toml'')])"
  using assms by (auto simp: detect_type_checker_def tool_has_def Let_def)

text \<open>
  C7, as it is stated, fails: the planner looks at the formatter and at the import
  sorter as well, each on its own. The tree below has \<open>uv.lock\<close>, a manifest with the
  sections \<open>[tool.ruff]\<close> and \<open>[tool.basedpyright]\<close> and the pre-commit file; its manifest
  also has a section \<open>[tool.black]\<close>, and the plan made without a source-tool override
  holds one step, the migration of Black to ruff.
\<close>

theorem C7_black_counterexample:
  "path_exists black_tree (example_root @ [''uv.lock''])
   \<and> read_toml example_lib black_tree (example_root @ [''pyproject.toml''])
       = Some black_pyproject
   \<and> tool_has (Some black_pyproject) ''ruff'' = Inr True
   \<and> tool_has (Some black_pyproject) ''basedpyright'' = Inr True
   \<and> path_exists black_tree (example_root @ [''.pre-commit-config.yaml''])
   \<and> create_migration_plan example_lib black_tree example_root None =
       Inr [\<lparr>migration_type = FORMATTER,
             description = ''Migrate Black configuration to ruff format'',
             source = ''black'', target = ''ruff'',
             files_affected = [[''home'', ''proj'', ''pyproject.toml'']],
             reversible = True\<rparr>]"
  by (simp add: create_migration_plan_def detect_source_tool_def detect_package_manager_def
        detect_formatter_def detect_import_sorter_def ruff_sorts_imports_def
        selects_isort_rules_def detect_linter_def
        detect_type_checker_def package_manager_steps_def new_step_def source_tool_of_def
        example_defs fs_defs Let_def)

text \<open>
  C7, amended. On a tree with \<open>uv.lock\<close>, a manifest with the sections \<open>[tool.ruff]\<close> and
  \<open>[tool.basedpyright]\<close> and the pre-commit file, on which \<open>detect_formatter\<close> returns a
  formatter other than black and \<open>detect_import_sorter\<close> returns a sorter other than
  isort, \<open>create_migration_plan\<close> without a source-tool override (\<open>None\<close> or the empty
  string) returns the empty list of steps.
\<close>

theorem C7_plan_empty:
  assumes "path_exists fs (path @ [''uv.lock''])"
    and "read_toml lib fs (path @ [''pyproject.toml'']) = Some doc"
    and "map_of doc ''tool'' = Some (TTab tool)"
    and "map_of tool ''ruff'' = Some (TTab ruff)"
    and "map_of tool ''basedpyright'' = Some (TTab basedpyright)"
    and "path_exists fs (path @ [''.pre-commit-config.yaml''])"
    and "detect_formatter lib fs path = Inr (fmt, fmt_info)" and "fmt \<noteq> Some ''black''"
    and "detect_import_sorter lib fs path = Inr (srt, srt_info)" and "srt \<noteq> Some ''isort''"
    and "from_tool = None \<or> from_tool = Some []"
  shows "create_migration_plan lib fs path from_tool = Inr []"
proof -
  have src: "detect_source_tool lib fs path = Inr None"
    using assms(1)
    by (simp add: detect_source_tool_def uv_lock_package_manager source_tool_of_def)
  have ruff: "tool_has (Some doc) ''ruff'' = Inr True"
    using assms(3,4) by (auto simp: tool_has_def)
  have "\<exists>li. detect_linter lib fs path = Inr (Some ''ruff'', li)"
    by (simp add: detect_linter_def Let_def assms(2) ruff)
  then obtain li where lnt: "detect_linter lib fs path = Inr (Some ''ruff'', li)"
    by blast
  have tc: "detect_type_checker lib fs path
           = Inr (Some ''basedpyright'', [(''config'', ''pyproject.toml'')])"
    using assms(2,3,5) by (rule tool_key_type_checker)
  show ?thesis
    using assms(7-11) src lnt tc
    by (auto simp: create_migration_plan_def package_manager_steps_def)
qed

text \<open>The witness: the modern example tree, whose formatter is ruff and which has no sorter.\<close>

theorem C7_plan_empty_witness:
  "path_exists modern_tree (example_root @ [''uv.lock''])
   \<and> read_toml example_lib modern_tree (example_root @ [''pyproject.toml''])
       = Some modern_pyproject
   \<and> map_of modern_pyproject ''tool''
       = Some (TTab [(''ruff'', TTab [(''line-length'', TInt 88)]),
                     (''basedpyright'', TTab [(''typeCheckingMode'', TStr ''standard'')])])
   \<and> path_exists modern_tree (example_root @ [''.pre-commit-config.yaml''])
   \<and> detect_formatter example_lib modern_tree example_root
       = Inr (Some ''ruff'', [(''config'', ''pyproject.toml'')])
   \<and> detect_import_sorter example_lib modern_tree example_root = Inr (None, [])
   \<and> create_migration_plan example_lib modern_tree example_root None = Inr []"
proof -
  have 1: "path_exists modern_tree (example_root @ [''uv.lock''])"
    and 2: "read_toml example_lib modern_tree (example_root @ [''pyproject.toml''])
              = Some modern_pyproject"
    and 3: "map_of modern_pyproject ''tool''
              = Some (TTab [(''ruff'', TTab [(''line-length'', TInt 88)]),
                     (''basedpyright'', TTab [(''typeCheckingMode'', TStr ''standard'')])])"
    and 4: "map_of [(''ruff'', TTab [(''line-length'', TInt 88)]),
                    (''basedpyright'', TTab [(''typeCheckingMode'', TStr ''standard'')])]
              ''ruff'' = Some (TTab [(''line-length'', TInt 88)])"
    and 5: "map_of [(''ruff'', TTab [(''line-length'', TInt 88)]),
                    (''basedpyright'', TTab [(''typeCheckingMode'', TStr ''standard'')])]
              ''basedpyright'' = Some (TTab [(''typeCheckingMode'', TStr ''standard'')])"
    and 6: "path_exists modern_tree (example_root @ [''.pre-commit-config.yaml''])"
    by (simp_all add: example_defs fs_defs)
  have 7: "Some ''ruff'' \<noteq> Some ''black''" and 8: "(None :: string option) \<noteq> Some ''isort''"
    by simp_all
  show ?thesis
    using C7_plan_empty[OF 1 2 3 4 5 6 modern_tree_detected(3) 7 modern_tree_detected(4) 8,
            of None]
          1 2 3 6 modern_tree_detected(3,4)
    by simp
qed

subsection \<open>C10: the backup\<close>



















subsection \<open>C5: from Poetry to uv\<close>
























end
